theory Spec2Isabelle
  imports Main
begin

section \<open>The graph model (package model)\<close>

text \<open>
  \<^verbatim>\<open>type EdgeType string\<close>: an edge type is a Go string, and the named kinds are string
  constants. The builder concatenates \<^verbatim>\<open>string(edgeType)\<close> into its deduplication key and
  the DOT writer prints it with \<^verbatim>\<open>%s\<close>, so the type is kept as a string here.
\<close>

type_synonym EdgeType = string

definition EdgeTypeBlocks :: EdgeType where "EdgeTypeBlocks = ''blocks''"
definition EdgeTypeBlockedBy :: EdgeType where "EdgeTypeBlockedBy = ''blocked_by''"
definition EdgeTypeParent :: EdgeType where "EdgeTypeParent = ''parent''"
definition EdgeTypeChild :: EdgeType where "EdgeTypeChild = ''child''"
definition EdgeTypeWaitsFor :: EdgeType where "EdgeTypeWaitsFor = ''waits_for''"
definition EdgeTypeWaitedBy :: EdgeType where "EdgeTypeWaitedBy = ''waited_by''"
definition EdgeTypeConditional :: EdgeType where "EdgeTypeConditional = ''conditional_blocks''"
definition EdgeTypeRelates :: EdgeType where "EdgeTypeRelates = ''relates_to''"
definition EdgeTypeDuplicates :: EdgeType where "EdgeTypeDuplicates = ''duplicates''"
definition EdgeTypeMentions :: EdgeType where "EdgeTypeMentions = ''mentions''"
definition EdgeTypeDerivedFrom :: EdgeType where "EdgeTypeDerivedFrom = ''derived_from''"
definition EdgeTypeSupersedes :: EdgeType where "EdgeTypeSupersedes = ''supersedes''"
definition EdgeTypeImplements :: EdgeType where "EdgeTypeImplements = ''implements''"
definition EdgeTypeUnknown :: EdgeType where "EdgeTypeUnknown = ''unknown''"

text \<open>
  Modelled from the spec: the type \<^verbatim>\<open>model.Status\<close> and its four constants are declared
  outside the files at hand. The spec gives the status as "one of a fixed small enum:
  pending/in_progress/done/blocked", and the web client keys its colour table by these
  four strings. \<^verbatim>\<open>model.Priority\<close> is missing as well; nothing below looks into a
  priority, so it stays a type parameter \<open>'p\<close>.
\<close>

type_synonym Status = string

definition StatusPending :: Status where "StatusPending = ''pending''"
definition StatusInProgress :: Status where "StatusInProgress = ''in_progress''"
definition StatusDone :: Status where "StatusDone = ''done''"
definition StatusBlocked :: Status where "StatusBlocked = ''blocked''"

record 'p GraphNode =
  ID :: string
  Title :: string
  Status :: Status
  Priority :: 'p

record GraphEdge =
  From :: string
  To :: string
  Type :: EdgeType

text \<open>
  Go's \<^verbatim>\<open>int\<close> is 64 bits wide. Both tallies only ever count the elements of a slice
  held in memory, whose length is itself an \<^verbatim>\<open>int\<close>, so they cannot wrap before the
  slice length does; they are mathematical integers here.
\<close>

record GraphStats =
  NodeCount :: int
  EdgeCount :: int
  MaxDepth :: int

record 'p Graph =
  Nodes :: "'p GraphNode list"
  Edges :: "GraphEdge list"
  Stats :: GraphStats

text \<open>\<^verbatim>\<open>NewGraph\<close>: two empty slices; \<^verbatim>\<open>Stats\<close> is Go's zero value.\<close>

definition NewGraph :: "'p Graph" where
  "NewGraph = \<lparr>Nodes = [], Edges = [],
               Stats = \<lparr>NodeCount = 0, EdgeCount = 0, MaxDepth = 0\<rparr>\<rparr>"

definition AddNode :: "'p Graph \<Rightarrow> 'p GraphNode \<Rightarrow> 'p Graph" where
  "AddNode g node =
     g\<lparr>Nodes := Nodes g @ [node],
       Stats := (Stats g)\<lparr>NodeCount := NodeCount (Stats g) + 1\<rparr>\<rparr>"

definition AddEdge :: "'p Graph \<Rightarrow> GraphEdge \<Rightarrow> 'p Graph" where
  "AddEdge g edge =
     g\<lparr>Edges := Edges g @ [edge],
       Stats := (Stats g)\<lparr>EdgeCount := EdgeCount (Stats g) + 1\<rparr>\<rparr>"




definition ParseEdgeType :: "string \<Rightarrow> EdgeType" where
  "ParseEdgeType s =
     (if s = ''blocks'' then EdgeTypeBlocks
      else if s = ''blocked_by'' then EdgeTypeBlockedBy
      else if s = ''parent'' then EdgeTypeParent
      else if s = ''child'' then EdgeTypeChild
      else if s = ''waits_for'' then EdgeTypeWaitsFor
      else if s = ''waited_by'' then EdgeTypeWaitedBy
      else if s = ''conditional_blocks'' then EdgeTypeConditional
      else if s = ''relates_to'' then EdgeTypeRelates
      else if s = ''duplicates'' then EdgeTypeDuplicates
      else if s = ''mentions'' then EdgeTypeMentions
      else if s = ''derived_from'' then EdgeTypeDerivedFrom
      else if s = ''supersedes'' then EdgeTypeSupersedes
      else if s = ''implements'' then EdgeTypeImplements
      else EdgeTypeUnknown)"

subsection \<open>The Graphviz writer\<close>

definition newline :: char where "newline = CHR 0x0A"
definition dquote :: char where "dquote = CHR 0x22"
definition backslash :: char where "backslash = CHR 0x5C"

text \<open>
  A Go map read \<^verbatim>\<open>m[k]\<close> gives the zero value, here the empty string, for a key that
  is not in the map.
\<close>

definition go_lookup :: "(string \<times> string) list \<Rightarrow> string \<Rightarrow> string" where
  "go_lookup m k = (case map_of m k of None \<Rightarrow> [] | Some v \<Rightarrow> v)"

definition statusColors :: "(Status \<times> string) list" where
  "statusColors =
     [(StatusPending, ''#3b82f6''),
      (StatusInProgress, ''#eab308''),
      (StatusDone, ''#22c55e''),
      (StatusBlocked, ''#ef4444'')]"

definition edgeStyles :: "(EdgeType \<times> string) list" where
  \<open>edgeStyles =
     [(EdgeTypeBlocks, ''color="#ef4444", penwidth=2''),
      (EdgeTypeBlockedBy, ''color="#ef4444", style=dashed''),
      (EdgeTypeParent, ''color="#6b7280", style=dashed''),
      (EdgeTypeChild, ''color="#6b7280", style=dotted''),
      (EdgeTypeWaitsFor, ''color="#f97316", style=dashed''),
      (EdgeTypeConditional, ''color="#a855f7", style=dashed''),
      (EdgeTypeRelates, ''color="#3b82f6", style=dotted''),
      (EdgeTypeImplements, ''color="#22c55e", style=bold'')]\<close>

text \<open>
  \<^verbatim>\<open>strings.ReplaceAll(node.Title, "\"", "\\\"")\<close>: the pattern is the one byte \<^verbatim>\<open>"\<close>,
  so every such byte is replaced by the two bytes backslash, quote, and every other byte
  is copied.
\<close>

definition escape_quotes :: "string \<Rightarrow> string" where
  "escape_quotes s = concat (map (\<lambda>c. if c = dquote then [backslash, dquote] else [c]) s)"

definition node_line :: "'p GraphNode \<Rightarrow> string" where
  \<open>node_line node =
     (let color = go_lookup statusColors (Status node);
          color = (if color = [] then ''#6b7280'' else color);
          label = escape_quotes (Title node)
      in ''  "'' @ ID node @ ''" [label="'' @ label @ ''", fillcolor="'' @ color
           @ ''", style="filled,rounded"];'' @ [newline])\<close>

definition edge_line :: "GraphEdge \<Rightarrow> string" where
  \<open>edge_line edge =
     (let style = go_lookup edgeStyles (Type edge);
          style = (if style = [] then ''color="#9ca3af"'' else style)
      in ''  "'' @ From edge @ ''" -> "'' @ To edge @ ''" ['' @ style @ '', label="''
           @ Type edge @ ''"];'' @ [newline])\<close>

definition ToDOT :: "'p Graph \<Rightarrow> string" where
  "ToDOT g =
     ''digraph dependencies {'' @ [newline]
     @ ''  rankdir=LR;'' @ [newline]
     @ ''  node [shape=box, style=rounded];'' @ [newline, newline]
     @ concat (map node_line (Nodes g))
     @ [newline]
     @ concat (map edge_line (Edges g))
     @ ''}'' @ [newline]"

text \<open>
  How Graphviz reads a double-quoted string once the opening quote has been consumed: the
  pair backslash, quote stands for a quote inside the string, any other byte (a lone
  backslash too) stands for itself, and the first quote not preceded by a backslash ends
  the string. The result is the string read and the input left over; \<open>None\<close> when the
  input ends first.
\<close>

fun dot_quoted :: "string \<Rightarrow> (string \<times> string) option" where
  "dot_quoted [] = None"
| "dot_quoted (c # cs) =
     (if c = dquote then Some ([], cs)
      else if c = backslash then
        (case cs of
           [] \<Rightarrow> None
         | d # ds \<Rightarrow>
             if d = dquote then map_option (\<lambda>(s, rest). (dquote # s, rest)) (dot_quoted ds)
             else map_option (\<lambda>(s, rest). (c # s, rest)) (dot_quoted cs))
      else map_option (\<lambda>(s, rest). (c # s, rest)) (dot_quoted cs))"

text \<open>A graph of one node whose title holds a quote and ends in a backslash.\<close>

definition backslash_node :: "int GraphNode" where
  \<open>backslash_node =
     \<lparr>ID = ''n1'', Title = ''a"b'' @ [backslash], Status = StatusPending, Priority = 1\<rparr>\<close>

definition backslash_graph :: "int Graph" where
  "backslash_graph = AddNode NewGraph backslash_node"

text \<open>
  The running tallies agree with the slices. (A caller that assigns to \<^verbatim>\<open>Nodes\<close> or
  \<^verbatim>\<open>Edges\<close> directly can break this; the two methods cannot.)
\<close>

definition tallied :: "'p Graph \<Rightarrow> bool" where
  "tallied g \<longleftrightarrow>
     int (length (Nodes g)) = NodeCount (Stats g) \<and> int (length (Edges g)) = EdgeCount (Stats g)"

section \<open>The graph builder (package beads)\<close>

text \<open>
  Modelled from the spec: the records that \<^verbatim>\<open>ParseIssueList\<close> and \<^verbatim>\<open>ParseBlockedList\<close>
  return are declared in a file that is not at hand. The fields below are the ones
  \<^verbatim>\<open>CLIAdapter.Graph\<close> reads, and the spec lists the same ones: per issue "an identifier,
  title, status, priority, a forward-dependency list (each with an identifier and a
  relationship-type string), a reverse-dependency list of the same shape, and an explicit
  blocked-by identifier list", and "an independent blocked listing". The tracker's own
  status and priority types are type parameters \<open>'s\<close> and \<open>'q\<close>; \<^verbatim>\<open>mapStatus\<close> and
  \<^verbatim>\<open>mapPriority\<close>, missing too, are parameters of the builder.
\<close>

record BDDependency =
  dep_ID :: string
  DepType :: string

record ('s, 'q) BDIssue =
  bd_ID :: string
  bd_Title :: string
  bd_Status :: 's
  bd_Priority :: 'q
  Dependencies :: "BDDependency list"
  Dependents :: "BDDependency list"
  BlockedBy :: "string list"

record BDBlockedIssue =
  blocked_ID :: string
  blocked_BlockedBy :: "string list"

definition mapDepTypeToEdgeType :: "string \<Rightarrow> EdgeType" where
  "mapDepTypeToEdgeType depType =
     (if depType = ''blocks'' then EdgeTypeBlocks
      else if depType = ''blocked_by'' then EdgeTypeBlockedBy
      else if depType = ''parent-child'' \<or> depType = ''parent'' then EdgeTypeParent
      else if depType = ''child'' then EdgeTypeChild
      else if depType = ''waits_for'' then EdgeTypeWaitsFor
      else if depType = ''waited_by'' then EdgeTypeWaitedBy
      else if depType = ''conditional_blocks'' then EdgeTypeConditional
      else if depType = ''relates_to'' then EdgeTypeRelates
      else if depType = ''duplicates'' then EdgeTypeDuplicates
      else if depType = ''mentions'' then EdgeTypeMentions
      else if depType = ''derived_from'' then EdgeTypeDerivedFrom
      else if depType = ''supersedes'' then EdgeTypeSupersedes
      else if depType = ''implements'' then EdgeTypeImplements
      else EdgeTypeBlocks)"

text \<open>The names the \<^verbatim>\<open>switch\<close> of \<^verbatim>\<open>mapDepTypeToEdgeType\<close> has a \<^verbatim>\<open>case\<close> for.\<close>

definition recognized_dep_types :: "string list" where
  "recognized_dep_types =
     [''blocks'', ''blocked_by'', ''parent-child'', ''parent'', ''child'', ''waits_for'',
      ''waited_by'', ''conditional_blocks'', ''relates_to'', ''duplicates'', ''mentions'',
      ''derived_from'', ''supersedes'', ''implements'']"

text \<open>
  \<^verbatim>\<open>nodeMap\<close> and \<^verbatim>\<open>edgeSet\<close> are \<^verbatim>\<open>map[string]bool\<close>; only \<^verbatim>\<open>true\<close> is ever stored and a
  read of a missing key gives \<^verbatim>\<open>false\<close>, so each is a function into \<open>bool\<close> that starts
  as constantly \<open>False\<close>.
\<close>

type_synonym keyset = "string \<Rightarrow> bool"

definition no_keys :: keyset where
  "no_keys = (\<lambda>_. False)"

text \<open>The first loop: one node per issue, and its identifier recorded in \<^verbatim>\<open>nodeMap\<close>.\<close>

definition add_issue_node ::
  "('s \<Rightarrow> Status) \<Rightarrow> ('q \<Rightarrow> 'p) \<Rightarrow> 'p Graph \<times> keyset \<Rightarrow> ('s, 'q) BDIssue \<Rightarrow> 'p Graph \<times> keyset" where
  "add_issue_node mapStatus mapPriority st bi =
     (case st of (graph, nodeMap) \<Rightarrow>
        (AddNode graph \<lparr>ID = bd_ID bi, Title = bd_Title bi,
                        Status = mapStatus (bd_Status bi),
                        Priority = mapPriority (bd_Priority bi)\<rparr>,
         nodeMap(bd_ID bi := True)))"

text \<open>The body of the loop over \<^verbatim>\<open>bi.Dependencies\<close> (things this issue depends on).\<close>

definition add_dependency ::
  "keyset \<Rightarrow> string \<Rightarrow> 'p Graph \<times> keyset \<Rightarrow> BDDependency \<Rightarrow> 'p Graph \<times> keyset" where
  "add_dependency nodeMap biID st dep =
     (case st of (graph, edgeSet) \<Rightarrow>
        let edgeType = mapDepTypeToEdgeType (DepType dep);
            edgeKey = biID @ ''->'' @ dep_ID dep @ '':'' @ edgeType
        in if nodeMap (dep_ID dep) \<and> \<not> edgeSet edgeKey
           then (AddEdge graph \<lparr>From = dep_ID dep, To = biID, Type = edgeType\<rparr>,
                 edgeSet(edgeKey := True))
           else (graph, edgeSet))"

text \<open>The body of the loop over \<^verbatim>\<open>bi.Dependents\<close> (things that depend on this issue).\<close>

definition add_dependent ::
  "keyset \<Rightarrow> string \<Rightarrow> 'p Graph \<times> keyset \<Rightarrow> BDDependency \<Rightarrow> 'p Graph \<times> keyset" where
  "add_dependent nodeMap biID st dep =
     (case st of (graph, edgeSet) \<Rightarrow>
        let edgeType = mapDepTypeToEdgeType (DepType dep);
            edgeKey = dep_ID dep @ ''->'' @ biID @ '':'' @ edgeType
        in if nodeMap (dep_ID dep) \<and> \<not> edgeSet edgeKey
           then (AddEdge graph \<lparr>From = biID, To = dep_ID dep, Type = edgeType\<rparr>,
                 edgeSet(edgeKey := True))
           else (graph, edgeSet))"

text \<open>The body of the loop over \<^verbatim>\<open>bi.BlockedBy\<close>.\<close>

definition add_blocker ::
  "keyset \<Rightarrow> string \<Rightarrow> 'p Graph \<times> keyset \<Rightarrow> string \<Rightarrow> 'p Graph \<times> keyset" where
  "add_blocker nodeMap biID st blockerID =
     (case st of (graph, edgeSet) \<Rightarrow>
        let edgeKey = blockerID @ ''->'' @ biID @ '':blocks''
        in if nodeMap blockerID \<and> \<not> edgeSet edgeKey
           then (AddEdge graph \<lparr>From = blockerID, To = biID, Type = EdgeTypeBlocks\<rparr>,
                 edgeSet(edgeKey := True))
           else (graph, edgeSet))"

text \<open>The body of the second loop over the issues: the three inner loops, in order.\<close>

definition add_issue_edges ::
  "keyset \<Rightarrow> 'p Graph \<times> keyset \<Rightarrow> ('s, 'q) BDIssue \<Rightarrow> 'p Graph \<times> keyset" where
  "add_issue_edges nodeMap st bi =
     (let st = foldl (add_dependency nodeMap (bd_ID bi)) st (Dependencies bi);
          st = foldl (add_dependent nodeMap (bd_ID bi)) st (Dependents bi);
          st = foldl (add_blocker nodeMap (bd_ID bi)) st (BlockedBy bi)
      in st)"

text \<open>The loops over the separate blocked listing; here both ends are looked up.\<close>

definition add_listed_blocker ::
  "keyset \<Rightarrow> string \<Rightarrow> 'p Graph \<times> keyset \<Rightarrow> string \<Rightarrow> 'p Graph \<times> keyset" where
  "add_listed_blocker nodeMap biID st blockerID =
     (case st of (graph, edgeSet) \<Rightarrow>
        let edgeKey = blockerID @ ''->'' @ biID @ '':blocks''
        in if nodeMap blockerID \<and> nodeMap biID \<and> \<not> edgeSet edgeKey
           then (AddEdge graph \<lparr>From = blockerID, To = biID, Type = EdgeTypeBlocks\<rparr>,
                 edgeSet(edgeKey := True))
           else (graph, edgeSet))"

definition add_blocked_issue ::
  "keyset \<Rightarrow> 'p Graph \<times> keyset \<Rightarrow> BDBlockedIssue \<Rightarrow> 'p Graph \<times> keyset" where
  "add_blocked_issue nodeMap st bi =
     foldl (add_listed_blocker nodeMap (blocked_ID bi)) st (blocked_BlockedBy bi)"

text \<open>
  Lines 137 to 215 of \<^verbatim>\<open>CLIAdapter.Graph\<close>: what is built from the parsed issue list and
  from the blocked listing, which is \<open>None\<close> when the second command or its parse failed
  (the code then skips the last loop and reports nothing).
\<close>

definition buildGraph ::
  "('s \<Rightarrow> Status) \<Rightarrow> ('q \<Rightarrow> 'p) \<Rightarrow> ('s, 'q) BDIssue list \<Rightarrow> BDBlockedIssue list option
     \<Rightarrow> 'p Graph" where
  "buildGraph mapStatus mapPriority bdIssues blocked =
     (case foldl (add_issue_node mapStatus mapPriority) (NewGraph, no_keys) bdIssues of
        (graph, nodeMap) \<Rightarrow>
          let st = foldl (add_issue_edges nodeMap) (graph, no_keys) bdIssues;
              st = (case blocked of
                      None \<Rightarrow> st
                    | Some blockedIssues \<Rightarrow> foldl (add_blocked_issue nodeMap) st blockedIssues)
          in fst st)"

text \<open>
  The command runner and the two parsers are not at hand either and are parameters:
  \<open>execute\<close> maps the arguments of the command to its output or its error. An error of
  the first command or of its parse is the only way \<^verbatim>\<open>Graph\<close> fails.
\<close>

datatype 'e adapter_error = ExecuteError 'e | ParseError string 'e

definition blocked_listing ::
  "(string list \<Rightarrow> 'e + string) \<Rightarrow> (string \<Rightarrow> 'e + BDBlockedIssue list)
     \<Rightarrow> BDBlockedIssue list option" where
  "blocked_listing execute ParseBlockedList =
     (case execute [''blocked'', ''--json''] of
        Inl err \<Rightarrow> None
      | Inr blockedOutput \<Rightarrow>
          (case ParseBlockedList blockedOutput of
             Inl parseErr \<Rightarrow> None
           | Inr blockedIssues \<Rightarrow> Some blockedIssues))"

definition Graph ::
  "(string list \<Rightarrow> 'e + string) \<Rightarrow> (string \<Rightarrow> 'e + ('s, 'q) BDIssue list)
     \<Rightarrow> (string \<Rightarrow> 'e + BDBlockedIssue list) \<Rightarrow> ('s \<Rightarrow> Status) \<Rightarrow> ('q \<Rightarrow> 'p)
     \<Rightarrow> 'e adapter_error + 'p Graph" where
  "Graph execute ParseIssueList ParseBlockedList mapStatus mapPriority =
     (case execute [''list'', ''--json''] of
        Inl err \<Rightarrow> Inl (ExecuteError err)
      | Inr output \<Rightarrow>
          (case ParseIssueList output of
             Inl err \<Rightarrow> Inl (ParseError ''list'' err)
           | Inr bdIssues \<Rightarrow>
               Inr (buildGraph mapStatus mapPriority bdIssues
                      (blocked_listing execute ParseBlockedList))))"

text \<open>
  For the statements below: the identifiers of the loaded issues, the triple of an edge,
  and an input with every relationship record removed that names an identifier outside
  the loaded set.
\<close>

definition node_ids :: "('s, 'q) BDIssue list \<Rightarrow> string set" where
  "node_ids bdIssues = set (map bd_ID bdIssues)"

definition triple :: "GraphEdge \<Rightarrow> string \<times> string \<times> EdgeType" where
  "triple e = (From e, To e, Type e)"

definition without_dangling :: "string set \<Rightarrow> ('s, 'q) BDIssue \<Rightarrow> ('s, 'q) BDIssue" where
  "without_dangling ids bi =
     bi\<lparr>Dependencies := filter (\<lambda>dep. dep_ID dep \<in> ids) (Dependencies bi),
        Dependents := filter (\<lambda>dep. dep_ID dep \<in> ids) (Dependents bi),
        BlockedBy := filter (\<lambda>blockerID. blockerID \<in> ids) (BlockedBy bi)\<rparr>"

definition blocked_without_dangling :: "string set \<Rightarrow> BDBlockedIssue \<Rightarrow> BDBlockedIssue" where
  "blocked_without_dangling ids bi =
     bi\<lparr>blocked_BlockedBy :=
          filter (\<lambda>blockerID. blockerID \<in> ids \<and> blocked_ID bi \<in> ids) (blocked_BlockedBy bi)\<rparr>"

definition edges_known :: "keyset \<Rightarrow> 'p Graph \<times> keyset \<Rightarrow> bool" where
  "edges_known nodeMap st \<longleftrightarrow>
     (\<forall>e\<in>set (Edges (fst st)). nodeMap (From e) \<and> nodeMap (To e))"







text \<open>Two issues \<open>A\<close> and \<open>B\<close>; \<open>A\<close> lists \<open>B\<close> as a forward dependency of type \<open>t\<close>.\<close>

definition issue_A :: "string \<Rightarrow> 's \<Rightarrow> 'q \<Rightarrow> ('s, 'q) BDIssue" where
  "issue_A t s q =
     \<lparr>bd_ID = ''A'', bd_Title = ''A'', bd_Status = s, bd_Priority = q,
      Dependencies = [\<lparr>dep_ID = ''B'', DepType = t\<rparr>], Dependents = [], BlockedBy = []\<rparr>"

definition issue_B :: "'s \<Rightarrow> 'q \<Rightarrow> ('s, 'q) BDIssue" where
  "issue_B s q =
     \<lparr>bd_ID = ''B'', bd_Title = ''B'', bd_Status = s, bd_Priority = q,
      Dependencies = [], Dependents = [], BlockedBy = []\<rparr>"

text \<open>\<open>A\<close> with a second forward dependency and a blocker that are not loaded.\<close>

definition issue_A_dangling :: "(Status, int) BDIssue" where
  "issue_A_dangling =
     \<lparr>bd_ID = ''A'', bd_Title = ''A'', bd_Status = StatusBlocked, bd_Priority = 1,
      Dependencies = [\<lparr>dep_ID = ''X'', DepType = ''blocks''\<rparr>,
                      \<lparr>dep_ID = ''B'', DepType = ''blocks''\<rparr>],
      Dependents = [\<lparr>dep_ID = ''Y'', DepType = ''parent''\<rparr>],
      BlockedBy = [''Z'']\<rparr>"

definition blocked_Q :: BDBlockedIssue where
  "blocked_Q = \<lparr>blocked_ID = ''Q'', blocked_BlockedBy = [''A'']\<rparr>"

text \<open>The blocked listing reports that \<open>A\<close> is blocked by \<open>B\<close>.\<close>

definition blocked_A :: BDBlockedIssue where
  "blocked_A = \<lparr>blocked_ID = ''A'', blocked_BlockedBy = [''B'']\<rparr>"

section \<open>JSON bodies and the graph endpoint (package api)\<close>

text \<open>
  \<^verbatim>\<open>encoding/json\<close> writes a struct as an object with one member per field, in the order
  of the fields and under the name of the \<^verbatim>\<open>json\<close> tag; a field tagged \<^verbatim>\<open>omitempty\<close> is
  left out when it is empty. The value written is kept as a tree, so that nothing here
  depends on how the library spells strings and numbers.
\<close>

datatype json =
    JNull
  | JBool bool
  | JNumber int
  | JString string
  | JArray "json list"
  | JObject "(string \<times> json) list"

definition json_GraphNode :: "('p \<Rightarrow> json) \<Rightarrow> 'p GraphNode \<Rightarrow> json" where
  "json_GraphNode json_Priority node =
     JObject [(''id'', JString (ID node)), (''title'', JString (Title node)),
              (''status'', JString (Status node)), (''priority'', json_Priority (Priority node))]"

definition json_GraphEdge :: "GraphEdge \<Rightarrow> json" where
  "json_GraphEdge edge =
     JObject [(''from'', JString (From edge)), (''to'', JString (To edge)),
              (''type'', JString (Type edge))]"

definition json_GraphStats :: "GraphStats \<Rightarrow> json" where
  "json_GraphStats stats =
     JObject [(''node_count'', JNumber (NodeCount stats)),
              (''edge_count'', JNumber (EdgeCount stats)),
              (''max_depth'', JNumber (MaxDepth stats))]"

definition json_Graph :: "('p \<Rightarrow> json) \<Rightarrow> 'p Graph \<Rightarrow> json" where
  "json_Graph json_Priority g =
     JObject [(''nodes'', JArray (map (json_GraphNode json_Priority) (Nodes g))),
              (''edges'', JArray (map json_GraphEdge (Edges g))),
              (''stats'', json_GraphStats (Stats g))]"

record ErrorResponse =
  Error :: string
  Code :: string
  Details :: "(string \<times> json) list"

definition json_ErrorResponse :: "ErrorResponse \<Rightarrow> json" where
  "json_ErrorResponse e =
     JObject ([(''error'', JString (Error e)), (''code'', JString (Code e))]
              @ (if Details e = [] then [] else [(''details'', JObject (Details e))]))"

text \<open>
  What a handler has done to its \<^verbatim>\<open>http.ResponseWriter\<close>: the header map, the status
  code once \<^verbatim>\<open>WriteHeader\<close> has been called (a second call is ignored by \<^verbatim>\<open>net/http\<close>),
  and what was written to the body, in order. \<open>JSONLine v\<close> stands for the bytes
  \<^verbatim>\<open>json.Encoder.Encode\<close> writes for \<open>v\<close>: its JSON text and a newline.
\<close>

datatype chunk = Bytes string | JSONLine json

record ResponseWriter =
  Header :: "string \<rightharpoonup> string"
  StatusCode :: "nat option"
  Body :: "chunk list"

definition StatusOK :: nat where "StatusOK = 200"
definition StatusBadRequest :: nat where "StatusBadRequest = 400"
definition StatusNotFound :: nat where "StatusNotFound = 404"
definition StatusInternalServerError :: nat where "StatusInternalServerError = 500"
definition StatusNotImplemented :: nat where "StatusNotImplemented = 501"
definition StatusServiceUnavailable :: nat where "StatusServiceUnavailable = 503"

definition Header_Set :: "string \<Rightarrow> string \<Rightarrow> ResponseWriter \<Rightarrow> ResponseWriter" where
  "Header_Set k v w = w\<lparr>Header := (Header w)(k \<mapsto> v)\<rparr>"

definition WriteHeader :: "nat \<Rightarrow> ResponseWriter \<Rightarrow> ResponseWriter" where
  "WriteHeader status w =
     (case StatusCode w of None \<Rightarrow> w\<lparr>StatusCode := Some status\<rparr> | Some _ \<Rightarrow> w)"

definition Write :: "chunk \<Rightarrow> ResponseWriter \<Rightarrow> ResponseWriter" where
  "Write c w = (WriteHeader StatusOK w)\<lparr>Body := Body w @ [c]\<rparr>"

definition writeJSON :: "ResponseWriter \<Rightarrow> nat \<Rightarrow> json \<Rightarrow> ResponseWriter" where
  "writeJSON w status data =
     Write (JSONLine data) (WriteHeader status (Header_Set ''Content-Type'' ''application/json'' w))"

definition writeError :: "ResponseWriter \<Rightarrow> nat \<Rightarrow> string \<Rightarrow> string \<Rightarrow> ResponseWriter" where
  "writeError w status code message =
     writeJSON w status (json_ErrorResponse \<lparr>Error = message, Code = code, Details = []\<rparr>)"

text \<open>
  The four classifiers of package beads and the error's text are not at hand; they are
  the fields of a parameter.
\<close>

record 'e error_ops =
  IsBDNotFoundError :: "'e \<Rightarrow> bool"
  IsNotInitializedError :: "'e \<Rightarrow> bool"
  IsNotFoundError :: "'e \<Rightarrow> bool"
  IsParseError :: "'e \<Rightarrow> bool"
  error_text :: "'e \<Rightarrow> string"

definition handleAdapterError :: "'e error_ops \<Rightarrow> ResponseWriter \<Rightarrow> 'e \<Rightarrow> ResponseWriter" where
  "handleAdapterError ops w err =
     (if IsBDNotFoundError ops err
        then writeError w StatusServiceUnavailable ''BD_NOT_FOUND'' (error_text ops err)
      else if IsNotInitializedError ops err
        then writeError w StatusServiceUnavailable ''BEADS_NOT_INIT'' (error_text ops err)
      else if IsNotFoundError ops err
        then writeError w StatusNotFound ''ISSUE_NOT_FOUND'' (error_text ops err)
      else if IsParseError ops err
        then writeError w StatusInternalServerError ''PARSE_ERROR'' (error_text ops err)
      else writeError w StatusInternalServerError ''BD_ERROR'' (error_text ops err))"

text \<open>
  A request, as far as the handler reads it: the decoded query parameters in the order
  of the URL. \<^verbatim>\<open>Values.Get\<close> gives the first value of a key, and the empty string when
  the key is absent.
\<close>

record Request =
  Query :: "(string \<times> string) list"

definition Query_Get :: "Request \<Rightarrow> string \<Rightarrow> string" where
  "Query_Get r key = (case map_of (Query r) key of None \<Rightarrow> [] | Some v \<Rightarrow> v)"

definition svg_message :: string where
  "svg_message = ''SVG export requires graphviz. Use DOT format and convert with '' @ [CHR 0x27]
                   @ ''dot -Tsvg'' @ [CHR 0x27]"

text \<open>
  \<^verbatim>\<open>handleGraph\<close>. The check \<^verbatim>\<open>checkBeadsInitialized\<close> is not at hand: it answers whether
  to go on and may have written a response; \<open>adapterGraph\<close> is what \<^verbatim>\<open>s.adapter.Graph\<close>
  returned for this request.
\<close>

definition handleGraph ::
  "(ResponseWriter \<Rightarrow> bool \<times> ResponseWriter) \<Rightarrow> 'e error_ops \<Rightarrow> ('p \<Rightarrow> json)
     \<Rightarrow> ('e + 'p Graph) \<Rightarrow> ResponseWriter \<Rightarrow> Request \<Rightarrow> ResponseWriter" where
  \<open>handleGraph checkBeadsInitialized ops json_Priority adapterGraph w r =
     (case checkBeadsInitialized w of
        (False, w) \<Rightarrow> w
      | (True, w) \<Rightarrow>
          let format = Query_Get r ''format'';
              format = (if format = [] then ''json'' else format)
          in (case adapterGraph of
                Inl err \<Rightarrow> handleAdapterError ops w err
              | Inr graph \<Rightarrow>
                  if format = ''dot'' then
                    Write (Bytes (ToDOT graph))
                      (WriteHeader StatusOK
                        (Header_Set ''Content-Disposition'' ''inline; filename="dependencies.dot"''
                          (Header_Set ''Content-Type'' ''text/vnd.graphviz; charset=utf-8'' w)))
                  else if format = ''svg'' then
                    writeError w StatusNotImplemented ''NOT_IMPLEMENTED'' svg_message
                  else writeJSON w StatusOK (json_Graph json_Priority graph)))\<close>

text \<open>Concrete requests: a writer nothing was written to, a check that passes.\<close>

definition fresh_writer :: ResponseWriter where
  "fresh_writer = \<lparr>Header = Map.empty, StatusCode = None, Body = []\<rparr>"

definition initialized :: "ResponseWriter \<Rightarrow> bool \<times> ResponseWriter" where
  "initialized w = (True, w)"

definition plain_errors :: "unit error_ops" where
  "plain_errors = \<lparr>IsBDNotFoundError = (\<lambda>e. False), IsNotInitializedError = (\<lambda>e. False),
                    IsNotFoundError = (\<lambda>e. False), IsParseError = (\<lambda>e. False),
                    error_text = (\<lambda>e. ''error'')\<rparr>"

definition with_format :: "string \<Rightarrow> Request" where
  "with_format v = \<lparr>Query = [(''format'', v)]\<rparr>"

definition without_format :: Request where
  "without_format = \<lparr>Query = []\<rparr>"

section \<open>The event broker (package api)\<close>

text \<open>
  A Go channel is a reference: two channel values are the same channel when they are the
  same address, and the broker's \<^verbatim>\<open>clients\<close> map is keyed by that address. Addresses are
  numbers here and the channels live in a store; an address the store does not hold is
  the nil channel. A buffered channel is its queue of pending messages, its capacity and
  whether it has been closed.
\<close>

type_synonym chan = nat

record channel =
  buffer :: "string list"
  capacity :: nat
  closed :: bool

type_synonym store = "chan \<rightharpoonup> channel"

text \<open>
  An operation completes with a new state, panics, or cannot proceed in the state at
  hand (a send on a full queue, a send nobody receives).
\<close>

datatype 'a outcome = Completes 'a | Panics string | Blocks

text \<open>\<^verbatim>\<open>make(chan []byte, n)\<close> at a given address.\<close>

definition make_chan :: "chan \<Rightarrow> nat \<Rightarrow> store \<Rightarrow> store" where
  "make_chan c n heap = heap(c \<mapsto> \<lparr>buffer = [], capacity = n, closed = False\<rparr>)"

text \<open>\<^verbatim>\<open>close(c)\<close>: closing the nil channel or a closed channel panics.\<close>

definition close_chan :: "chan \<Rightarrow> store \<Rightarrow> store outcome" where
  "close_chan c heap =
     (case heap c of
        None \<Rightarrow> Panics ''close of nil channel''
      | Some ch \<Rightarrow>
          if closed ch then Panics ''close of closed channel''
          else Completes (heap(c \<mapsto> ch\<lparr>closed := True\<rparr>)))"

text \<open>
  \<^verbatim>\<open>select { case client <- msg: default: }\<close>, a send that never waits: it panics on a
  closed channel, puts the message into the queue when there is room, and otherwise
  takes the \<^verbatim>\<open>default\<close> branch. (A receiver already waiting on the channel has found its
  queue empty, so a message handed over to it directly is one for which there was room.)
\<close>

definition try_send :: "string \<Rightarrow> store \<Rightarrow> chan \<Rightarrow> store outcome" where
  "try_send msg heap client =
     (case heap client of
        None \<Rightarrow> Completes heap
      | Some ch \<Rightarrow>
          if closed ch then Panics ''send on closed channel''
          else if length (buffer ch) < capacity ch
            then Completes (heap(client \<mapsto> ch\<lparr>buffer := buffer ch @ [msg]\<rparr>))
          else Completes heap)"

text \<open>
  Modelled from the spec: \<^verbatim>\<open>model.Event\<close> is declared in a file that is not at hand; the
  spec has it as "a named kind plus an arbitrary JSON-serializable payload", and
  \<^verbatim>\<open>Broadcast\<close> reads \<^verbatim>\<open>event.Type\<close> (printed with \<^verbatim>\<open>%s\<close>) and \<^verbatim>\<open>event.Data\<close>.
\<close>

record 'd Event =
  ev_Type :: string
  ev_Data :: 'd

datatype 'e log_line =
    MarshalError 'e
  | ClientConnected nat
  | ClientDisconnected nat

text \<open>
  The broker. \<^verbatim>\<open>register\<close> and \<^verbatim>\<open>unregister\<close> are unbuffered channels, which hold
  nothing between a send and its receive; \<^verbatim>\<open>broadcast\<close> is a queue of capacity 100;
  \<open>done_closed\<close> says whether the channel \<^verbatim>\<open>done\<close> has been closed, \<open>running\<close> whether the loop
  of \<^verbatim>\<open>Start\<close> is being run. \<open>chans\<close> holds the subscribers' channels and \<open>logged\<close> what
  went to the log.
\<close>

record 'e SSEBroker =
  clients :: "chan \<rightharpoonup> bool"
  broadcast :: "string list"
  done_closed :: bool
  running :: bool
  chans :: store
  logged :: "'e log_line list"

definition broadcast_capacity :: nat where "broadcast_capacity = 100"
definition client_capacity :: nat where "client_capacity = 10"

definition NewSSEBroker :: "'e SSEBroker" where
  "NewSSEBroker =
     \<lparr>clients = Map.empty, broadcast = [], done_closed = False, running = False,
      chans = Map.empty, logged = []\<rparr>"

text \<open>\<^verbatim>\<open>Broadcast\<close>; \<open>marshal\<close> is \<^verbatim>\<open>json.Marshal\<close> on the payload.\<close>

definition sse_message :: "string \<Rightarrow> string \<Rightarrow> string" where
  "sse_message type data =
     ''event: '' @ type @ [newline] @ ''data: '' @ data @ [newline, newline]"

definition Broadcast :: "('d \<Rightarrow> 'e + string) \<Rightarrow> 'd Event \<Rightarrow> 'e SSEBroker \<Rightarrow> 'e SSEBroker outcome" where
  "Broadcast marshal event b =
     (case marshal (ev_Data event) of
        Inl err \<Rightarrow> Completes (b\<lparr>logged := logged b @ [MarshalError err]\<rparr>)
      | Inr data \<Rightarrow>
          let msg = sse_message (ev_Type event) data
          in if length (broadcast b) < broadcast_capacity
             then Completes (b\<lparr>broadcast := broadcast b @ [msg]\<rparr>)
             else Blocks)"

text \<open>The cases of the \<^verbatim>\<open>select\<close> in \<^verbatim>\<open>Start\<close>, one function each.\<close>

definition on_register :: "chan \<Rightarrow> 'e SSEBroker \<Rightarrow> 'e SSEBroker outcome" where
  "on_register client b =
     (let b = b\<lparr>clients := (clients b)(client \<mapsto> True)\<rparr>
      in Completes (b\<lparr>logged := logged b @ [ClientConnected (card (dom (clients b)))]\<rparr>))"

definition on_unregister :: "chan \<Rightarrow> 'e SSEBroker \<Rightarrow> 'e SSEBroker outcome" where
  "on_unregister client b =
     (case clients b client of
        None \<Rightarrow> Completes (b\<lparr>logged := logged b @ [ClientDisconnected (card (dom (clients b)))]\<rparr>)
      | Some ok \<Rightarrow>
          let b = b\<lparr>clients := (clients b)(client := None)\<rparr>
          in (case close_chan client (chans b) of
                Completes chans' \<Rightarrow>
                  Completes (b\<lparr>chans := chans',
                               logged := logged b @ [ClientDisconnected (card (dom (clients b)))]\<rparr>)
              | Panics p \<Rightarrow> Panics p
              | Blocks \<Rightarrow> Blocks))"

text \<open>
  \<^verbatim>\<open>for client := range b.clients\<close> visits the keys in an order Go does not fix; the order
  taken is the list \<open>order\<close>.
\<close>

fun fan_out :: "string \<Rightarrow> chan list \<Rightarrow> store \<Rightarrow> store outcome" where
  "fan_out msg [] heap = Completes heap"
| "fan_out msg (client # order) heap =
     (case try_send msg heap client of
        Completes heap' \<Rightarrow> fan_out msg order heap'
      | Panics p \<Rightarrow> Panics p
      | Blocks \<Rightarrow> Blocks)"

definition on_broadcast :: "chan list \<Rightarrow> 'e SSEBroker \<Rightarrow> 'e SSEBroker outcome" where
  "on_broadcast order b =
     (case broadcast b of
        [] \<Rightarrow> Blocks
      | msg # waiting \<Rightarrow>
          (case fan_out msg order (chans b) of
             Completes chans' \<Rightarrow> Completes (b\<lparr>broadcast := waiting, chans := chans'\<rparr>)
           | Panics p \<Rightarrow> Panics p
           | Blocks \<Rightarrow> Blocks))"

text \<open>
  \<^verbatim>\<open>Subscribe\<close> makes a channel of capacity 10 at the address the allocator hands out and
  passes it to the loop; \<^verbatim>\<open>Unsubscribe\<close> passes the caller's channel to the loop. Both
  sends are on unbuffered channels and complete only while the loop is there to receive.
\<close>

definition Subscribe :: "chan \<Rightarrow> 'e SSEBroker \<Rightarrow> ('e SSEBroker \<times> chan) outcome" where
  "Subscribe client b =
     (let b = b\<lparr>chans := make_chan client client_capacity (chans b)\<rparr>
      in if running b
         then (case on_register client b of
                 Completes b' \<Rightarrow> Completes (b', client)
               | Panics p \<Rightarrow> Panics p
               | Blocks \<Rightarrow> Blocks)
         else Blocks)"

definition Unsubscribe :: "chan \<Rightarrow> 'e SSEBroker \<Rightarrow> 'e SSEBroker outcome" where
  "Unsubscribe client b = (if running b then on_unregister client b else Blocks)"

text \<open>\<^verbatim>\<open>Stop\<close>: close \<^verbatim>\<open>done\<close>, close every registered channel, start a new empty map.\<close>

fun close_all :: "chan list \<Rightarrow> store \<Rightarrow> store outcome" where
  "close_all [] heap = Completes heap"
| "close_all (client # order) heap =
     (case close_chan client heap of
        Completes heap' \<Rightarrow> close_all order heap'
      | Panics p \<Rightarrow> Panics p
      | Blocks \<Rightarrow> Blocks)"

definition Stop :: "chan list \<Rightarrow> 'e SSEBroker \<Rightarrow> 'e SSEBroker outcome" where
  "Stop order b =
     (if done_closed b then Panics ''close of closed channel''
      else (case close_all order (chans b) of
              Completes chans' \<Rightarrow>
                Completes (b\<lparr>done_closed := True, chans := chans', clients := Map.empty\<rparr>)
            | Panics p \<Rightarrow> Panics p
            | Blocks \<Rightarrow> Blocks))"

text \<open>Every registered channel is allocated and open.\<close>

definition live_open :: "'e SSEBroker \<Rightarrow> bool" where
  "live_open b \<longleftrightarrow> (\<forall>c\<in>dom (clients b). \<exists>ch. chans b c = Some ch \<and> \<not> closed ch)"

text \<open>What the fan-out of \<open>msg\<close> does to one channel of a registered subscriber.\<close>

definition deliver :: "string \<Rightarrow> channel \<Rightarrow> channel" where
  "deliver msg ch =
     (if length (buffer ch) < capacity ch then ch\<lparr>buffer := buffer ch @ [msg]\<rparr> else ch)"

text \<open>
  A broker with a subscriber at address 1 whose queue has room and one at address 2
  whose queue is full, and a channel at address 3 that is not registered.
\<close>

definition ten_pending :: "string list" where
  "ten_pending = replicate 10 ''old''"

definition two_clients :: "unit SSEBroker" where
  "two_clients =
     \<lparr>clients = [1 \<mapsto> True, 2 \<mapsto> True],
      broadcast = [''m''],
      done_closed = False, running = True,
      chans = [1 \<mapsto> \<lparr>buffer = [''old''], capacity = 10, closed = False\<rparr>,
               2 \<mapsto> \<lparr>buffer = ten_pending, capacity = 10, closed = False\<rparr>,
               3 \<mapsto> \<lparr>buffer = [], capacity = 10, closed = False\<rparr>],
      logged = []\<rparr>"

definition idle_clients :: "unit SSEBroker" where
  "idle_clients = two_clients\<lparr>broadcast := []\<rparr>"

definition issue_created :: "string Event" where
  "issue_created = \<lparr>ev_Type = ''issue_created'', ev_Data = ''{}''\<rparr>"

section \<open>Collected unfoldings\<close>

lemmas EdgeType_defs =
  EdgeTypeBlocks_def EdgeTypeBlockedBy_def EdgeTypeParent_def EdgeTypeChild_def
  EdgeTypeWaitsFor_def EdgeTypeWaitedBy_def EdgeTypeConditional_def EdgeTypeRelates_def
  EdgeTypeDuplicates_def EdgeTypeMentions_def EdgeTypeDerivedFrom_def
  EdgeTypeSupersedes_def EdgeTypeImplements_def EdgeTypeUnknown_def

lemmas Status_defs = StatusPending_def StatusInProgress_def StatusDone_def StatusBlocked_def

lemmas builder_defs =
  add_issue_node_def add_dependency_def add_dependent_def add_blocker_def
  add_issue_edges_def add_listed_blocker_def add_blocked_issue_def buildGraph_def
  no_keys_def NewGraph_def AddNode_def AddEdge_def mapDepTypeToEdgeType_def

section \<open>The tallies follow the slices\<close>

lemma AddNode_fields:
  "Nodes (AddNode g node) = Nodes g @ [node]"
  "Edges (AddNode g node) = Edges g"
  "NodeCount (Stats (AddNode g node)) = NodeCount (Stats g) + 1"
  "EdgeCount (Stats (AddNode g node)) = EdgeCount (Stats g)"
  "MaxDepth (Stats (AddNode g node)) = MaxDepth (Stats g)"
  by (simp_all add: AddNode_def)

lemma AddEdge_fields:
  "Nodes (AddEdge g edge) = Nodes g"
  "Edges (AddEdge g edge) = Edges g @ [edge]"
  "NodeCount (Stats (AddEdge g edge)) = NodeCount (Stats g)"
  "EdgeCount (Stats (AddEdge g edge)) = EdgeCount (Stats g) + 1"
  "MaxDepth (Stats (AddEdge g edge)) = MaxDepth (Stats g)"
  by (simp_all add: AddEdge_def)

lemma NewGraph_fields:
  "Nodes NewGraph = []" "Edges NewGraph = []"
  "NodeCount (Stats NewGraph) = 0" "EdgeCount (Stats NewGraph) = 0"
  "MaxDepth (Stats NewGraph) = 0"
  by (simp_all add: NewGraph_def)

lemma tallied_NewGraph: "tallied NewGraph"
  by (simp add: tallied_def NewGraph_fields)

lemma tallied_AddNode: "tallied g \<Longrightarrow> tallied (AddNode g node)"
  by (simp add: tallied_def AddNode_fields)

lemma tallied_AddEdge: "tallied g \<Longrightarrow> tallied (AddEdge g edge)"
  by (simp add: tallied_def AddEdge_fields)




section \<open>The builder drops what it cannot attach\<close>

lemma foldl_filter_skip:
  assumes "\<And>s x. \<not> P x \<Longrightarrow> f s x = s"
  shows "foldl f s (filter P xs) = foldl f s xs"
  using assms by (induction xs arbitrary: s) simp_all

lemma foldl_preserves:
  assumes "Q s" and "\<And>s x. Q s \<Longrightarrow> x \<in> set xs \<Longrightarrow> Q (f s x)"
  shows "Q (foldl f s xs)"
  using assms by (induction xs arbitrary: s) simp_all

lemma nodeMap_after_nodes:
  "snd (foldl (add_issue_node ms mp) st bdIssues) k \<longleftrightarrow> snd st k \<or> k \<in> node_ids bdIssues"
  by (induction bdIssues arbitrary: st)
     (auto simp: add_issue_node_def node_ids_def split: prod.splits)

lemma nodeMap_of_issues:
  "snd (foldl (add_issue_node ms mp) (g, no_keys) bdIssues) = (\<lambda>k. k \<in> node_ids bdIssues)"
  by (rule ext) (simp add: nodeMap_after_nodes no_keys_def)

lemma add_issue_node_without_dangling:
  "add_issue_node ms mp st (without_dangling ids bi) = add_issue_node ms mp st bi"
  by (simp add: add_issue_node_def without_dangling_def)

lemma nodes_without_dangling:
  "foldl (add_issue_node ms mp) st (map (without_dangling ids) bdIssues)
     = foldl (add_issue_node ms mp) st bdIssues"
  by (induction bdIssues arbitrary: st) (simp_all add: add_issue_node_without_dangling)

lemma node_ids_without_dangling:
  "node_ids (map (without_dangling ids) bdIssues) = node_ids bdIssues"
  by (simp add: node_ids_def without_dangling_def comp_def)

lemma add_dependency_dangling: "\<not> nodeMap (dep_ID dep) \<Longrightarrow> add_dependency nodeMap b st dep = st"
  by (simp add: add_dependency_def split: prod.splits)

lemma add_dependent_dangling: "\<not> nodeMap (dep_ID dep) \<Longrightarrow> add_dependent nodeMap b st dep = st"
  by (simp add: add_dependent_def split: prod.splits)

lemma add_blocker_dangling: "\<not> nodeMap blockerID \<Longrightarrow> add_blocker nodeMap b st blockerID = st"
  by (simp add: add_blocker_def split: prod.splits)

lemma add_listed_blocker_dangling:
  "\<not> (nodeMap blockerID \<and> nodeMap b) \<Longrightarrow> add_listed_blocker nodeMap b st blockerID = st"
  by (auto simp: add_listed_blocker_def split: prod.splits)

lemma add_issue_edges_without_dangling:
  "add_issue_edges (\<lambda>k. k \<in> ids) st (without_dangling ids bi) = add_issue_edges (\<lambda>k. k \<in> ids) st bi"
  by (simp add: add_issue_edges_def without_dangling_def foldl_filter_skip
        add_dependency_dangling add_dependent_dangling add_blocker_dangling)

lemma issue_edges_without_dangling:
  "foldl (add_issue_edges (\<lambda>k. k \<in> ids)) st (map (without_dangling ids) bdIssues)
     = foldl (add_issue_edges (\<lambda>k. k \<in> ids)) st bdIssues"
  by (induction bdIssues arbitrary: st) (simp_all add: add_issue_edges_without_dangling)

lemma add_blocked_issue_without_dangling:
  "add_blocked_issue (\<lambda>k. k \<in> ids) st (blocked_without_dangling ids bi)
     = add_blocked_issue (\<lambda>k. k \<in> ids) st bi"
  by (simp add: add_blocked_issue_def blocked_without_dangling_def foldl_filter_skip
        add_listed_blocker_dangling)

lemma blocked_issues_without_dangling:
  "foldl (add_blocked_issue (\<lambda>k. k \<in> ids)) st (map (blocked_without_dangling ids) bl)
     = foldl (add_blocked_issue (\<lambda>k. k \<in> ids)) st bl"
  by (induction bl arbitrary: st) (simp_all add: add_blocked_issue_without_dangling)

lemma buildGraph_unfold:
  "buildGraph ms mp bdIssues blocked =
     fst (case blocked of
            None \<Rightarrow> foldl (add_issue_edges (\<lambda>k. k \<in> node_ids bdIssues))
                      (fst (foldl (add_issue_node ms mp) (NewGraph, no_keys) bdIssues), no_keys) bdIssues
          | Some bl \<Rightarrow> foldl (add_blocked_issue (\<lambda>k. k \<in> node_ids bdIssues))
                      (foldl (add_issue_edges (\<lambda>k. k \<in> node_ids bdIssues))
                        (fst (foldl (add_issue_node ms mp) (NewGraph, no_keys) bdIssues), no_keys) bdIssues) bl)"
proof -
  obtain graph nodeMap where st: "foldl (add_issue_node ms mp) (NewGraph, no_keys) bdIssues = (graph, nodeMap)"
    by (cases "foldl (add_issue_node ms mp) (NewGraph, no_keys) bdIssues")
  have "nodeMap = (\<lambda>k. k \<in> node_ids bdIssues)"
    using nodeMap_of_issues [of ms mp NewGraph bdIssues] st by simp
  with st show ?thesis
    by (simp add: buildGraph_def split: option.splits)
qed

lemma buildGraph_without_dangling:
  "buildGraph ms mp (map (without_dangling (node_ids bdIssues)) bdIssues)
      (map_option (map (blocked_without_dangling (node_ids bdIssues))) blocked)
   = buildGraph ms mp bdIssues blocked"
  by (cases blocked)
     (simp_all add: buildGraph_unfold node_ids_without_dangling nodes_without_dangling
        issue_edges_without_dangling blocked_issues_without_dangling)

lemma edges_known_add_dependency:
  "edges_known nodeMap st \<Longrightarrow> nodeMap b \<Longrightarrow> edges_known nodeMap (add_dependency nodeMap b st dep)"
  by (auto simp: edges_known_def add_dependency_def AddEdge_fields Let_def split: prod.splits)

lemma edges_known_add_dependent:
  "edges_known nodeMap st \<Longrightarrow> nodeMap b \<Longrightarrow> edges_known nodeMap (add_dependent nodeMap b st dep)"
  by (auto simp: edges_known_def add_dependent_def AddEdge_fields Let_def split: prod.splits)

lemma edges_known_add_blocker:
  "edges_known nodeMap st \<Longrightarrow> nodeMap b \<Longrightarrow> edges_known nodeMap (add_blocker nodeMap b st x)"
  by (auto simp: edges_known_def add_blocker_def AddEdge_fields Let_def split: prod.splits)

lemma edges_known_add_listed_blocker:
  "edges_known nodeMap st \<Longrightarrow> edges_known nodeMap (add_listed_blocker nodeMap b st x)"
  by (auto simp: edges_known_def add_listed_blocker_def AddEdge_fields Let_def split: prod.splits)

lemma edges_known_add_issue_edges:
  assumes "edges_known nodeMap st" "nodeMap (bd_ID bi)"
  shows "edges_known nodeMap (add_issue_edges nodeMap st bi)"
  unfolding add_issue_edges_def Let_def
  by (intro foldl_preserves [where Q = "edges_known nodeMap"] assms
        edges_known_add_dependency edges_known_add_dependent edges_known_add_blocker)

lemma edges_known_add_blocked_issue:
  "edges_known nodeMap st \<Longrightarrow> edges_known nodeMap (add_blocked_issue nodeMap st bi)"
  unfolding add_blocked_issue_def
  by (intro foldl_preserves [where Q = "edges_known nodeMap"] edges_known_add_listed_blocker)

lemma nodes_only_fields:
  "Edges (fst (foldl (add_issue_node ms mp) st bdIssues)) = Edges (fst st)"
  "EdgeCount (Stats (fst (foldl (add_issue_node ms mp) st bdIssues))) = EdgeCount (Stats (fst st))"
  by (induction bdIssues arbitrary: st)
     (auto simp: add_issue_node_def AddNode_fields split: prod.splits)

lemma edges_known_buildGraph:
  "edges_known (\<lambda>k. k \<in> node_ids bdIssues) (buildGraph ms mp bdIssues blocked, es)"
proof -
  let ?nm = "\<lambda>k. k \<in> node_ids bdIssues"
  let ?g0 = "fst (foldl (add_issue_node ms mp) (NewGraph, no_keys) bdIssues)"
  have 0: "edges_known ?nm (?g0, no_keys)"
    by (simp add: edges_known_def nodes_only_fields NewGraph_fields)
  have 1: "edges_known ?nm (foldl (add_issue_edges ?nm) (?g0, no_keys) bdIssues)"
    by (rule foldl_preserves [where Q = "edges_known ?nm", OF 0])
       (auto intro: edges_known_add_issue_edges simp: node_ids_def)
  have 2: "edges_known ?nm (foldl (add_blocked_issue ?nm) (foldl (add_issue_edges ?nm) (?g0, no_keys) bdIssues) bl)" for bl
    by (rule foldl_preserves [where Q = "edges_known ?nm", OF 1])
       (rule edges_known_add_blocked_issue)
  show ?thesis
    using 1 2 by (cases blocked) (simp_all add: buildGraph_unfold edges_known_def)
qed

lemma tallied_add_issue_node: "tallied (fst st) \<Longrightarrow> tallied (fst (add_issue_node ms mp st bi))"
  by (auto simp: add_issue_node_def tallied_AddNode split: prod.splits)

lemma tallied_add_dependency: "tallied (fst st) \<Longrightarrow> tallied (fst (add_dependency nodeMap b st dep))"
  by (auto simp: add_dependency_def tallied_AddEdge Let_def split: prod.splits)

lemma tallied_add_dependent: "tallied (fst st) \<Longrightarrow> tallied (fst (add_dependent nodeMap b st dep))"
  by (auto simp: add_dependent_def tallied_AddEdge Let_def split: prod.splits)

lemma tallied_add_blocker: "tallied (fst st) \<Longrightarrow> tallied (fst (add_blocker nodeMap b st x))"
  by (auto simp: add_blocker_def tallied_AddEdge Let_def split: prod.splits)

lemma tallied_add_listed_blocker: "tallied (fst st) \<Longrightarrow> tallied (fst (add_listed_blocker nodeMap b st x))"
  by (auto simp: add_listed_blocker_def tallied_AddEdge Let_def split: prod.splits)

lemma tallied_add_issue_edges: "tallied (fst st) \<Longrightarrow> tallied (fst (add_issue_edges nodeMap st bi))"
  unfolding add_issue_edges_def Let_def
  by (intro foldl_preserves [where Q = "\<lambda>st. tallied (fst st)"]
        tallied_add_dependency tallied_add_dependent tallied_add_blocker)

lemma tallied_add_blocked_issue: "tallied (fst st) \<Longrightarrow> tallied (fst (add_blocked_issue nodeMap st bi))"
  unfolding add_blocked_issue_def
  by (intro foldl_preserves [where Q = "\<lambda>st. tallied (fst st)"] tallied_add_listed_blocker)

lemma tallied_buildGraph: "tallied (buildGraph ms mp bdIssues blocked)"
proof -
  let ?nm = "\<lambda>k. k \<in> node_ids bdIssues"
  let ?g0 = "fst (foldl (add_issue_node ms mp) (NewGraph, no_keys) bdIssues)"
  have 0: "tallied (fst (?g0, no_keys :: keyset))"
    by (simp, rule foldl_preserves [where Q = "\<lambda>st. tallied (fst st)"])
       (simp_all add: tallied_NewGraph tallied_add_issue_node)
  have 1: "tallied (fst (foldl (add_issue_edges ?nm) (?g0, no_keys) bdIssues))"
    by (rule foldl_preserves [where Q = "\<lambda>st. tallied (fst st)", OF 0])
       (rule tallied_add_issue_edges)
  have 2: "tallied (fst (foldl (add_blocked_issue ?nm) (foldl (add_issue_edges ?nm) (?g0, no_keys) bdIssues) bl))" for bl
    by (rule foldl_preserves [where Q = "\<lambda>st. tallied (fst st)", OF 1])
       (rule tallied_add_blocked_issue)
  show ?thesis
    using 1 2 by (cases blocked) (simp_all add: buildGraph_unfold)
qed

lemma Graph_succeeds:
  assumes "execute [''list'', ''--json''] = Inr output" and "ParseIssueList output = Inr bdIssues"
  shows "Graph execute ParseIssueList ParseBlockedList ms mp
           = Inr (buildGraph ms mp bdIssues (blocked_listing execute ParseBlockedList))"
  using assms by (simp add: Graph_def)

text \<open>
  Claim C5. Whenever the issue list was fetched and parsed, \<^verbatim>\<open>Graph\<close> returns a graph and
  no error, whatever the relationship records say. Every edge of that graph has both ends
  among the identifiers of the loaded issues, the edge tally equals the number of edges,
  and the graph is the very graph built from the input with every dangling record taken
  out beforehand: of a forward or reverse dependency or a blocker that is not loaded, and
  of an entry of the blocked listing whose blocker or blocked issue is not loaded. So such
  a record adds no edge and does not move \<^verbatim>\<open>edge_count\<close>.
\<close>

theorem C5_dangling_records_dropped:
  assumes "execute [''list'', ''--json''] = Inr output" and "ParseIssueList output = Inr bdIssues"
  shows "\<exists>g. Graph execute ParseIssueList ParseBlockedList ms mp = Inr g
           \<and> (\<forall>e\<in>set (Edges g). From e \<in> node_ids bdIssues \<and> To e \<in> node_ids bdIssues)
           \<and> EdgeCount (Stats g) = int (length (Edges g))
           \<and> g = buildGraph ms mp (map (without_dangling (node_ids bdIssues)) bdIssues)
                   (map_option (map (blocked_without_dangling (node_ids bdIssues)))
                      (blocked_listing execute ParseBlockedList))"
proof -
  let ?g = "buildGraph ms mp bdIssues (blocked_listing execute ParseBlockedList)"
  have "Graph execute ParseIssueList ParseBlockedList ms mp = Inr ?g"
    using assms by (simp add: Graph_def)
  moreover have "\<forall>e\<in>set (Edges ?g). From e \<in> node_ids bdIssues \<and> To e \<in> node_ids bdIssues"
    using edges_known_buildGraph [of bdIssues ms mp "blocked_listing execute ParseBlockedList" no_keys]
    by (simp add: edges_known_def)
  moreover have "EdgeCount (Stats ?g) = int (length (Edges ?g))"
    using tallied_buildGraph [of ms mp bdIssues "blocked_listing execute ParseBlockedList"]
    by (simp add: tallied_def)
  moreover have "?g = buildGraph ms mp (map (without_dangling (node_ids bdIssues)) bdIssues)
                   (map_option (map (blocked_without_dangling (node_ids bdIssues)))
                      (blocked_listing execute ParseBlockedList))"
    by (simp add: buildGraph_without_dangling)
  ultimately show ?thesis by blast
qed

theorem C5_dangling_records_dropped_witness:
  "(\<lambda>args. Inr ''[]'' :: unit + string) [''list'', ''--json''] = Inr ''[]''
   \<and> (\<lambda>out. Inr [issue_A_dangling, issue_B StatusDone 2] :: unit + (Status, int) BDIssue list) ''[]''
        = Inr [issue_A_dangling, issue_B StatusDone 2]
   \<and> (\<exists>g. Graph (\<lambda>args. Inr ''[]'' :: unit + string)
              (\<lambda>out. Inr [issue_A_dangling, issue_B StatusDone 2])
              (\<lambda>out. Inr [blocked_Q]) (\<lambda>s. s) (\<lambda>q. q) = Inr g
          \<and> Edges g = [\<lparr>From = ''B'', To = ''A'', Type = ''blocks''\<rparr>]
          \<and> EdgeCount (Stats g) = 1)"
proof -
  let ?ex = "\<lambda>args :: string list. Inr ''[]'' :: unit + string"
  let ?pi = "\<lambda>out :: string. Inr [issue_A_dangling, issue_B StatusDone 2] :: unit + (Status, int) BDIssue list"
  let ?pb = "\<lambda>out :: string. Inr [blocked_Q] :: unit + BDBlockedIssue list"
  have h1: "?ex [''list'', ''--json''] = Inr ''[]''" by simp
  have h2: "?pi ''[]'' = Inr [issue_A_dangling, issue_B StatusDone 2]" by simp
  obtain g where g: "Graph ?ex ?pi ?pb (\<lambda>s. s) (\<lambda>q. q) = Inr g"
    and len: "EdgeCount (Stats g) = int (length (Edges g))"
    and eq: "g = buildGraph (\<lambda>s. s) (\<lambda>q. q)
                   (map (without_dangling (node_ids [issue_A_dangling, issue_B StatusDone 2]))
                      [issue_A_dangling, issue_B StatusDone 2])
                   (map_option (map (blocked_without_dangling (node_ids [issue_A_dangling, issue_B StatusDone 2])))
                      (blocked_listing ?ex ?pb))"
    using C5_dangling_records_dropped [of ?ex "''[]''" ?pi "[issue_A_dangling, issue_B StatusDone 2]" ?pb "\<lambda>s. s" "\<lambda>q. q", OF h1 h2]
    by blast
  have "Edges g = [\<lparr>From = ''B'', To = ''A'', Type = ''blocks''\<rparr>]"
    unfolding eq
    by (simp add: builder_defs EdgeType_defs Status_defs issue_A_dangling_def issue_B_def
          blocked_Q_def blocked_listing_def node_ids_def without_dangling_def
          blocked_without_dangling_def Let_def)
  with g len h1 h2 show ?thesis by simp
qed

section \<open>One relationship, two keys\<close>

text \<open>
  Claim C1 (no two edges of a built graph share the triple of source, target and type)
  does not hold of the code. The loops over the forward and the reverse lists record an
  edge under the key \<open>to->from:type\<close>, the two loops over blockers under the key
  \<open>from->to:blocks\<close>. When issue \<open>A\<close> lists \<open>B\<close> as a forward dependency of type
  \<open>blocks\<close> and the blocked listing reports \<open>A\<close> as blocked by \<open>B\<close>, the edge from \<open>B\<close>
  to \<open>A\<close> of type \<open>blocks\<close> is recorded under \<open>A->B:blocks\<close> first and is then looked up
  under \<open>B->A:blocks\<close>, not found, and added again.
\<close>

theorem C1_duplicate_edge:
  "Edges (buildGraph ms mp [issue_A ''blocks'' sa qa, issue_B sb qb] (Some [blocked_A]))
     = [\<lparr>From = ''B'', To = ''A'', Type = ''blocks''\<rparr>,
        \<lparr>From = ''B'', To = ''A'', Type = ''blocks''\<rparr>]
   \<and> \<not> distinct (map triple (Edges (buildGraph ms mp [issue_A ''blocks'' sa qa, issue_B sb qb]
                                      (Some [blocked_A]))))
   \<and> EdgeCount (Stats (buildGraph ms mp [issue_A ''blocks'' sa qa, issue_B sb qb]
                          (Some [blocked_A]))) = 2"
  by (simp add: builder_defs EdgeType_defs issue_A_def issue_B_def blocked_A_def triple_def Let_def)

section \<open>Relationship types\<close>

lemma mapDepType_fallback:
  "depType \<notin> set recognized_dep_types \<Longrightarrow> mapDepTypeToEdgeType depType = EdgeTypeBlocks"
  by (simp add: recognized_dep_types_def mapDepTypeToEdgeType_def)

text \<open>
  Claim C7. A dependency-type string that is none of the names the \<^verbatim>\<open>switch\<close> knows is
  mapped to the edge type \<open>blocks\<close>, and the builder goes on as for any other type: for
  issues \<open>A\<close> and \<open>B\<close> where \<open>A\<close> lists \<open>B\<close> under such a type, \<^verbatim>\<open>Graph\<close> returns the graph
  with the one edge from \<open>B\<close> to \<open>A\<close> of type \<open>blocks\<close>, and no error.
\<close>

theorem C7_unrecognized_type_is_blocks:
  assumes "depType \<notin> set recognized_dep_types"
  shows "mapDepTypeToEdgeType depType = EdgeTypeBlocks
         \<and> Graph (\<lambda>args. Inr output) (\<lambda>out. Inr [issue_A depType sa qa, issue_B sb qb])
                 (\<lambda>out. Inr []) ms mp
             = Inr \<lparr>Nodes = [\<lparr>ID = ''A'', Title = ''A'', Status = ms sa, Priority = mp qa\<rparr>,
                             \<lparr>ID = ''B'', Title = ''B'', Status = ms sb, Priority = mp qb\<rparr>],
                    Edges = [\<lparr>From = ''B'', To = ''A'', Type = EdgeTypeBlocks\<rparr>],
                    Stats = \<lparr>NodeCount = 2, EdgeCount = 1, MaxDepth = 0\<rparr>\<rparr>"
proof -
  have m: "mapDepTypeToEdgeType depType = EdgeTypeBlocks"
    using assms by (rule mapDepType_fallback)
  have "buildGraph ms mp [issue_A depType sa qa, issue_B sb qb] (Some [])
          = \<lparr>Nodes = [\<lparr>ID = ''A'', Title = ''A'', Status = ms sa, Priority = mp qa\<rparr>,
                       \<lparr>ID = ''B'', Title = ''B'', Status = ms sb, Priority = mp qb\<rparr>],
              Edges = [\<lparr>From = ''B'', To = ''A'', Type = EdgeTypeBlocks\<rparr>],
              Stats = \<lparr>NodeCount = 2, EdgeCount = 1, MaxDepth = 0\<rparr>\<rparr>"
    by (simp add: add_issue_node_def add_dependency_def add_dependent_def add_blocker_def
        add_issue_edges_def add_listed_blocker_def add_blocked_issue_def buildGraph_def
        no_keys_def NewGraph_def AddNode_def AddEdge_def m issue_A_def issue_B_def Let_def)
  with m show ?thesis
    by (simp add: Graph_def blocked_listing_def)
qed

theorem C7_unrecognized_type_is_blocks_witness:
  "''unknown'' \<notin> set recognized_dep_types
   \<and> mapDepTypeToEdgeType ''unknown'' = ''blocks''
   \<and> Graph (\<lambda>args. Inr ''[]'' :: unit + string)
        (\<lambda>out. Inr [issue_A ''unknown'' StatusBlocked (1::int), issue_B StatusDone 2])
        (\<lambda>out. Inr []) (\<lambda>s. s) (\<lambda>q. q)
       = Inr \<lparr>Nodes = [\<lparr>ID = ''A'', Title = ''A'', Status = ''blocked'', Priority = 1\<rparr>,
                       \<lparr>ID = ''B'', Title = ''B'', Status = ''done'', Priority = 2\<rparr>],
              Edges = [\<lparr>From = ''B'', To = ''A'', Type = ''blocks''\<rparr>],
              Stats = \<lparr>NodeCount = 2, EdgeCount = 1, MaxDepth = 0\<rparr>\<rparr>"
proof -
  have h: "''unknown'' \<notin> set recognized_dep_types"
    by (simp add: recognized_dep_types_def)
  show ?thesis
    using h C7_unrecognized_type_is_blocks [OF h, of "''[]''" StatusBlocked "1::int" StatusDone 2 "\<lambda>s. s" "\<lambda>q. q"]
    by (simp add: EdgeType_defs Status_defs)
qed

section \<open>Edge directions\<close>
















section \<open>Quoting in the Graphviz writer\<close>

lemma escape_quotes_Cons:
  "escape_quotes (c # s) = (if c = dquote then [backslash, dquote] else [c]) @ escape_quotes s"
  by (simp add: escape_quotes_def)

text \<open>
  What the writer gets right: a title without a backslash, quotes or not, is read back
  from its label as it was, and the string ends where the writer closed it.
\<close>

lemma dot_quoted_escape:
  "backslash \<notin> set title \<Longrightarrow> dot_quoted (escape_quotes title @ dquote # rest) = Some (title, rest)"
  by (induction title) (auto simp: escape_quotes_def dquote_def backslash_def)

text \<open>
  Claim C8 (every quote of a title is escaped and the output is valid DOT whatever the
  input) does not hold of the code. \<^verbatim>\<open>ToDOT\<close> escapes the quotes of a title and nothing
  else. For a title that ends in a backslash, the label ends in backslash, quote: Graphviz
  reads the writer's closing quote as an escaped one, and the label runs on through
  \<^verbatim>\<open>, fillcolor=\<close> up to the quote that was meant to open the colour.
\<close>

theorem C8_backslash_breaks_label:
  \<open>ToDOT backslash_graph =
     ''digraph dependencies {'' @ [newline]
     @ ''  rankdir=LR;'' @ [newline]
     @ ''  node [shape=box, style=rounded];'' @ [newline, newline]
     @ ''  "n1" [label="a'' @ [backslash] @ ''"b'' @ [backslash]
         @ ''", fillcolor="#3b82f6", style="filled,rounded"];'' @ [newline]
     @ [newline]
     @ ''}'' @ [newline]
   \<and> dot_quoted (escape_quotes (Title backslash_node)
                    @ ''", fillcolor="#3b82f6", style="filled,rounded"];'' @ [newline])
       = Some (''a"b", fillcolor='', ''#3b82f6", style="filled,rounded"];'' @ [newline])\<close>
  by (simp add: ToDOT_def backslash_graph_def backslash_node_def node_line_def escape_quotes_def
      AddNode_def NewGraph_def go_lookup_def statusColors_def Status_defs dquote_def
      backslash_def newline_def)

section \<open>The broker loop\<close>

lemma try_send_open:
  "heap client = Some ch \<Longrightarrow> \<not> closed ch \<Longrightarrow>
   try_send msg heap client = Completes (heap(client \<mapsto> deliver msg ch))"
  by (simp add: try_send_def deliver_def fun_upd_idem)

lemma fan_out_open:
  assumes "\<forall>c\<in>set order. \<exists>ch. heap c = Some ch \<and> \<not> closed ch" and "distinct order"
  shows "fan_out msg order heap
           = Completes (\<lambda>c. if c \<in> set order then map_option (deliver msg) (heap c) else heap c)"
  using assms
proof (induction order arbitrary: heap)
  case Nil
  then show ?case by simp
next
  case (Cons client order)
  then obtain ch where ch: "heap client = Some ch" "\<not> closed ch"
    by auto
  let ?heap' = "heap(client \<mapsto> deliver msg ch)"
  have rest: "\<forall>c\<in>set order. \<exists>ch. ?heap' c = Some ch \<and> \<not> closed ch"
    using Cons.prems by auto
  have "fan_out msg (client # order) heap = fan_out msg order ?heap'"
    using ch by (simp add: try_send_open)
  also have "\<dots> = Completes (\<lambda>c. if c \<in> set order then map_option (deliver msg) (?heap' c) else ?heap' c)"
    using Cons.prems by (intro Cons.IH [OF rest]) simp
  also have "(\<lambda>c. if c \<in> set order then map_option (deliver msg) (?heap' c) else ?heap' c)
      = (\<lambda>c. if c \<in> set (client # order) then map_option (deliver msg) (heap c) else heap c)"
    using Cons.prems ch by (auto simp: fun_eq_iff)
  finally show ?case .
qed

lemma on_broadcast_live:
  assumes "live_open b" "distinct order" "set order = dom (clients b)" "broadcast b = msg # waiting"
  shows "on_broadcast order b
           = Completes (b\<lparr>broadcast := waiting,
                          chans := (\<lambda>c. if c \<in> dom (clients b) then map_option (deliver msg) (chans b c)
                                         else chans b c)\<rparr>)"
proof -
  have "\<forall>c\<in>set order. \<exists>ch. chans b c = Some ch \<and> \<not> closed ch"
    using assms(1,3) by (simp add: live_open_def)
  from fan_out_open [OF this assms(2)] assms(3,4) show ?thesis
    by (simp add: on_broadcast_def)
qed

text \<open>
  Claim C3. When the loop takes a message from the broadcast queue, with every registered
  channel open and whatever the order in which the map is walked, the step completes (it
  neither waits nor panics) and leaves the set of subscribers as it was; each registered
  subscriber whose queue has room has the message appended to its queue; each registered
  subscriber whose queue is full keeps its queue as it was, and this changes nothing for
  the others; channels that are not registered are not touched.
\<close>

theorem C3_fan_out_best_effort:
  assumes "live_open b" and "distinct order" and "set order = dom (clients b)"
    and "broadcast b = msg # waiting"
  shows "\<exists>b'. on_broadcast order b = Completes b'
           \<and> clients b' = clients b
           \<and> broadcast b' = waiting
           \<and> (\<forall>c ch. c \<in> dom (clients b) \<and> chans b c = Some ch \<and> length (buffer ch) < capacity ch
                  \<longrightarrow> chans b' c = Some (ch\<lparr>buffer := buffer ch @ [msg]\<rparr>))
           \<and> (\<forall>c ch. c \<in> dom (clients b) \<and> chans b c = Some ch \<and> \<not> length (buffer ch) < capacity ch
                  \<longrightarrow> chans b' c = Some ch)
           \<and> (\<forall>c. c \<notin> dom (clients b) \<longrightarrow> chans b' c = chans b c)"
  using on_broadcast_live [OF assms] by (auto simp: deliver_def)

lemma live_open_two_clients: "live_open two_clients"
  by (simp add: live_open_def two_clients_def)

theorem C3_fan_out_best_effort_witness:
  "live_open two_clients \<and> distinct [2, 1 :: chan] \<and> set [2, 1] = dom (clients two_clients)
   \<and> broadcast two_clients = ''m'' # []
   \<and> (\<exists>b'. on_broadcast [2, 1] two_clients = Completes b'
         \<and> chans b' 1 = Some \<lparr>buffer = [''old'', ''m''], capacity = 10, closed = False\<rparr>
         \<and> chans b' 2 = Some \<lparr>buffer = ten_pending, capacity = 10, closed = False\<rparr>
         \<and> chans b' 3 = Some \<lparr>buffer = [], capacity = 10, closed = False\<rparr>)"
proof -
  have h1: "live_open two_clients" by (rule live_open_two_clients)
  have h2: "distinct [2, 1 :: chan]" by simp
  have h3: "set [2, 1] = dom (clients two_clients)" by (auto simp: two_clients_def)
  have h4: "broadcast two_clients = ''m'' # []" by (simp add: two_clients_def)
  obtain b' where b': "on_broadcast [2, 1] two_clients = Completes b'"
    and room: "\<forall>c ch. c \<in> dom (clients two_clients) \<and> chans two_clients c = Some ch
                 \<and> length (buffer ch) < capacity ch
               \<longrightarrow> chans b' c = Some (ch\<lparr>buffer := buffer ch @ [''m'']\<rparr>)"
    and full: "\<forall>c ch. c \<in> dom (clients two_clients) \<and> chans two_clients c = Some ch
                 \<and> \<not> length (buffer ch) < capacity ch
               \<longrightarrow> chans b' c = Some ch"
    and other: "\<forall>c. c \<notin> dom (clients two_clients) \<longrightarrow> chans b' c = chans two_clients c"
    using C3_fan_out_best_effort [OF h1 h2 h3 h4] by blast
  have c1: "chans b' 1 = Some \<lparr>buffer = [''old'', ''m''], capacity = 10, closed = False\<rparr>"
    using room [rule_format, of 1 "\<lparr>buffer = [''old''], capacity = 10, closed = False\<rparr>"]
    by (simp add: two_clients_def)
  have c2: "chans b' 2 = Some \<lparr>buffer = ten_pending, capacity = 10, closed = False\<rparr>"
    using full [rule_format, of 2 "\<lparr>buffer = ten_pending, capacity = 10, closed = False\<rparr>"]
    by (simp add: two_clients_def ten_pending_def)
  have c3: "chans b' 3 = Some \<lparr>buffer = [], capacity = 10, closed = False\<rparr>"
    using other [rule_format, of 3] by (simp add: two_clients_def)
  from h1 h2 h3 h4 b' c1 c2 c3 show ?thesis by blast
qed

text \<open>
  Claim C4. While the loop is running, \<^verbatim>\<open>Unsubscribe\<close> on a channel that is not in the
  \<^verbatim>\<open>clients\<close> map completes without a panic, leaves the map as it was and leaves every
  channel, that one included, as it was (so it is not closed).
\<close>

theorem C4_unsubscribe_unregistered:
  assumes "clients b client = None" and "running b"
  shows "\<exists>b'. Unsubscribe client b = Completes b'
           \<and> clients b' = clients b \<and> chans b' = chans b \<and> broadcast b' = broadcast b"
  using assms by (simp add: Unsubscribe_def on_unregister_def)

theorem C4_unsubscribe_unregistered_witness:
  "clients two_clients 3 = None \<and> running two_clients
   \<and> (\<exists>b'. Unsubscribe 3 two_clients = Completes b'
         \<and> clients b' = clients two_clients
         \<and> chans b' 3 = Some \<lparr>buffer = [], capacity = 10, closed = False\<rparr>)"
proof -
  have h1: "clients two_clients 3 = None" by (simp add: two_clients_def)
  have h2: "running two_clients" by (simp add: two_clients_def)
  obtain b' where "Unsubscribe 3 two_clients = Completes b'" "clients b' = clients two_clients"
    "chans b' = chans two_clients"
    using C4_unsubscribe_unregistered [OF h1 h2] by blast
  moreover have "chans two_clients 3 = Some \<lparr>buffer = [], capacity = 10, closed = False\<rparr>"
    by (simp add: two_clients_def)
  ultimately show ?thesis using h1 h2 by auto
qed

section \<open>The broker keeps its subscribers open\<close>

lemma live_open_iff:
  "live_open b \<longleftrightarrow> (\<forall>c v. clients b c = Some v \<longrightarrow> (\<exists>ch. chans b c = Some ch \<and> \<not> closed ch))"
  unfolding live_open_def by (auto simp: dom_def)

lemma live_open_NewSSEBroker: "live_open NewSSEBroker"
  by (simp add: live_open_def NewSSEBroker_def)

lemma live_open_on_register:
  assumes "live_open b" "chans b client = Some ch" "\<not> closed ch" "on_register client b = Completes b'"
  shows "live_open b'"
  using assms by (auto simp: live_open_iff on_register_def Let_def split: if_splits)

lemma live_open_Stop: "Stop order b = Completes b' \<Longrightarrow> live_open b'"
  by (auto simp: Stop_def live_open_iff split: if_splits outcome.splits)

lemma live_open_Broadcast: "live_open b \<Longrightarrow> Broadcast marshal event b = Completes b' \<Longrightarrow> live_open b'"
  by (auto simp: Broadcast_def live_open_iff Let_def split: sum.splits if_splits)

lemma live_open_Subscribe:
  assumes "live_open b" "Subscribe client b = Completes (b', c)"
  shows "live_open b' \<and> c = client \<and> clients b' client = Some True"
proof -
  from assms(2) have r: "running b" and c: "c = client"
    and b': "b' = b\<lparr>chans := make_chan client client_capacity (chans b),
                    clients := (clients b)(client \<mapsto> True),
                    logged := logged b @ [ClientConnected (card (dom ((clients b)(client \<mapsto> True))))]\<rparr>"
    by (auto simp: Subscribe_def on_register_def Let_def split: if_splits)
  have "live_open b'"
    unfolding live_open_iff
  proof (intro allI impI)
    fix x v assume "clients b' x = Some v"
    show "\<exists>ch. chans b' x = Some ch \<and> \<not> closed ch"
    proof (cases "x = client")
      case True
      then show ?thesis by (simp add: b' make_chan_def)
    next
      case False
      with \<open>clients b' x = Some v\<close> have "clients b x = Some v" by (simp add: b')
      with assms(1) obtain ch where "chans b x = Some ch" "\<not> closed ch"
        unfolding live_open_iff by blast
      with False show ?thesis by (simp add: b' make_chan_def)
    qed
  qed
  with c show ?thesis by (simp add: b')
qed

lemma live_open_on_unregister:
  assumes "live_open b" "on_unregister client b = Completes b'"
  shows "live_open b' \<and> clients b' client = None"
proof (cases "clients b client")
  case None
  with assms(2) have "b' = b\<lparr>logged := logged b @ [ClientDisconnected (card (dom (clients b)))]\<rparr>"
    by (simp add: on_unregister_def)
  with assms(1) None show ?thesis by (simp add: live_open_iff)
next
  case (Some ok)
  from assms(1) Some obtain ch where ch: "chans b client = Some ch" "\<not> closed ch"
    unfolding live_open_iff by blast
  with assms(2) Some
  have b': "b' = b\<lparr>clients := (clients b)(client := None),
                    chans := (chans b)(client \<mapsto> ch\<lparr>closed := True\<rparr>),
                    logged := logged b @ [ClientDisconnected (card (dom ((clients b)(client := None))))]\<rparr>"
    by (simp add: on_unregister_def close_chan_def Let_def)
  have "live_open b'"
    unfolding live_open_iff
  proof (intro allI impI)
    fix x v assume x: "clients b' x = Some v"
    then have ne: "x \<noteq> client" and "clients b x = Some v"
      by (auto simp: b' split: if_splits)
    with assms(1) obtain c where "chans b x = Some c" "\<not> closed c"
      unfolding live_open_iff by blast
    with ne show "\<exists>ch. chans b' x = Some ch \<and> \<not> closed ch" by (simp add: b')
  qed
  then show ?thesis by (simp add: b')
qed

lemma live_open_on_broadcast:
  assumes "live_open b" "distinct order" "set order = dom (clients b)"
    "on_broadcast order b = Completes b'"
  shows "live_open b'"
proof (cases "broadcast b")
  case Nil
  with assms(4) show ?thesis by (simp add: on_broadcast_def)
next
  case (Cons msg waiting)
  from on_broadcast_live [OF assms(1-3) Cons] assms(4)
  have b': "b' = b\<lparr>broadcast := waiting,
                chans := (\<lambda>c. if c \<in> dom (clients b) then map_option (deliver msg) (chans b c)
                               else chans b c)\<rparr>"
    by simp
  show ?thesis
    unfolding live_open_iff
  proof (intro allI impI)
    fix x v assume "clients b' x = Some v"
    then have x: "clients b x = Some v" by (simp add: b')
    with assms(1) obtain c where c: "chans b x = Some c" "\<not> closed c"
      unfolding live_open_iff by blast
    have "closed (deliver msg c) = closed c" by (simp add: deliver_def)
    with x c show "\<exists>ch. chans b' x = Some ch \<and> \<not> closed ch"
      by (simp add: b' dom_def)
  qed
qed

section \<open>Broadcast\<close>

text \<open>
  Claim C2. \<^verbatim>\<open>Broadcast\<close> never panics, and it has no error to return. When the payload
  is serialized and the broadcast queue has room, it completes with exactly the bytes
  \<^verbatim>\<open>event: <type>\\ndata: <json>\\n\\n\<close> appended to the queue (when the queue is full the
  send waits, and nothing else happens). When serialization fails it completes with the
  error logged, the queue as it was and nothing else changed. A message that was put into
  an empty queue is the one the loop fans out next, and every registered subscriber with
  room has exactly these bytes appended to its own queue.
\<close>

theorem C2_broadcast_never_fails:
  "(\<forall>p. Broadcast marshal event b \<noteq> Panics p)
   \<and> (marshal (ev_Data event) = Inr data \<and> length (broadcast b) < broadcast_capacity
        \<longrightarrow> Broadcast marshal event b
              = Completes (b\<lparr>broadcast := broadcast b
                               @ [''event: '' @ ev_Type event @ [newline]
                                  @ ''data: '' @ data @ [newline, newline]]\<rparr>))
   \<and> (marshal (ev_Data event) = Inr data \<and> \<not> length (broadcast b) < broadcast_capacity
        \<longrightarrow> Broadcast marshal event b = Blocks)
   \<and> (marshal (ev_Data event) = Inl err
        \<longrightarrow> Broadcast marshal event b = Completes (b\<lparr>logged := logged b @ [MarshalError err]\<rparr>))
   \<and> (marshal (ev_Data event) = Inr data \<and> broadcast b = [] \<and> live_open b
        \<and> distinct order \<and> set order = dom (clients b)
        \<longrightarrow> (\<exists>b' b''. Broadcast marshal event b = Completes b'
               \<and> on_broadcast order b' = Completes b''
               \<and> (\<forall>c ch. c \<in> dom (clients b) \<and> chans b c = Some ch
                      \<and> length (buffer ch) < capacity ch
                    \<longrightarrow> chans b'' c
                         = Some (ch\<lparr>buffer := buffer ch
                                     @ [''event: '' @ ev_Type event @ [newline]
                                        @ ''data: '' @ data @ [newline, newline]]\<rparr>))))"
proof -
  let ?msg = "''event: '' @ ev_Type event @ [newline] @ ''data: '' @ data @ [newline, newline]"
  have 1: "\<forall>p. Broadcast marshal event b \<noteq> Panics p"
    by (simp add: Broadcast_def Let_def split: sum.splits)
  have 2: "marshal (ev_Data event) = Inr data \<and> length (broadcast b) < broadcast_capacity
        \<longrightarrow> Broadcast marshal event b = Completes (b\<lparr>broadcast := broadcast b @ [?msg]\<rparr>)"
    by (simp add: Broadcast_def sse_message_def)
  have 3: "marshal (ev_Data event) = Inr data \<and> \<not> length (broadcast b) < broadcast_capacity
        \<longrightarrow> Broadcast marshal event b = Blocks"
    by (simp add: Broadcast_def)
  have 4: "marshal (ev_Data event) = Inl err
        \<longrightarrow> Broadcast marshal event b = Completes (b\<lparr>logged := logged b @ [MarshalError err]\<rparr>)"
    by (simp add: Broadcast_def)
  have 5: "marshal (ev_Data event) = Inr data \<and> broadcast b = [] \<and> live_open b
        \<and> distinct order \<and> set order = dom (clients b)
        \<longrightarrow> (\<exists>b' b''. Broadcast marshal event b = Completes b'
               \<and> on_broadcast order b' = Completes b''
               \<and> (\<forall>c ch. c \<in> dom (clients b) \<and> chans b c = Some ch
                      \<and> length (buffer ch) < capacity ch
                    \<longrightarrow> chans b'' c = Some (ch\<lparr>buffer := buffer ch @ [?msg]\<rparr>)))"
  proof (intro impI, elim conjE)
    assume m: "marshal (ev_Data event) = Inr data" and e: "broadcast b = []" and l: "live_open b"
      and d: "distinct order" and s: "set order = dom (clients b)"
    let ?b' = "b\<lparr>broadcast := [?msg]\<rparr>"
    let ?b'' = "?b'\<lparr>broadcast := [],
                    chans := (\<lambda>c. if c \<in> dom (clients ?b') then map_option (deliver ?msg) (chans ?b' c)
                                   else chans ?b' c)\<rparr>"
    have b': "Broadcast marshal event b = Completes ?b'"
      using m e by (simp add: Broadcast_def sse_message_def broadcast_capacity_def)
    have l': "live_open ?b'" using l by (simp add: live_open_def)
    have s': "set order = dom (clients ?b')" using s by simp
    have q: "broadcast ?b' = ?msg # []" by simp
    have b'': "on_broadcast order ?b' = Completes ?b''"
      by (rule on_broadcast_live [OF l' d s' q])
    have "\<forall>c ch. c \<in> dom (clients b) \<and> chans b c = Some ch \<and> length (buffer ch) < capacity ch
             \<longrightarrow> chans ?b'' c = Some (ch\<lparr>buffer := buffer ch @ [?msg]\<rparr>)"
      by (simp add: deliver_def)
    with b' b'' show "\<exists>b' b''. Broadcast marshal event b = Completes b'
               \<and> on_broadcast order b' = Completes b''
               \<and> (\<forall>c ch. c \<in> dom (clients b) \<and> chans b c = Some ch
                      \<and> length (buffer ch) < capacity ch
                    \<longrightarrow> chans b'' c = Some (ch\<lparr>buffer := buffer ch @ [?msg]\<rparr>))"
      by blast
  qed
  show ?thesis
    by (intro conjI 1 2 3 4 5)
qed

theorem C2_broadcast_never_fails_witness:
  "Broadcast Inr issue_created idle_clients
     = Completes (idle_clients\<lparr>broadcast := [''event: issue_created'' @ [newline]
                                              @ ''data: {}'' @ [newline, newline]]\<rparr>)
   \<and> Broadcast (\<lambda>d. Inl ()) issue_created idle_clients
       = Completes (idle_clients\<lparr>logged := [MarshalError ()]\<rparr>)
   \<and> Broadcast Inr issue_created (idle_clients\<lparr>broadcast := replicate 100 ''x''\<rparr>) = Blocks
   \<and> (\<exists>b' b''. Broadcast Inr issue_created idle_clients = Completes b'
          \<and> on_broadcast [1, 2] b' = Completes b''
          \<and> chans b'' 1
              = Some \<lparr>buffer = [''old'', ''event: issue_created'' @ [newline]
                                          @ ''data: {}'' @ [newline, newline]],
                      capacity = 10, closed = False\<rparr>)"
proof -
  let ?msg = "''event: issue_created'' @ [newline] @ ''data: {}'' @ [newline, newline]"
  note ok = C2_broadcast_never_fails
    [where marshal = "Inr :: string \<Rightarrow> unit + string" and event = issue_created
       and b = idle_clients and data = "''{}''" and order = "[1, 2]"]
  note bad = C2_broadcast_never_fails
    [where marshal = "\<lambda>d :: string. Inl () :: unit + string" and event = issue_created
       and b = idle_clients and err = "()"]
  note full = C2_broadcast_never_fails
    [where marshal = "Inr :: string \<Rightarrow> unit + string" and event = issue_created
       and b = "idle_clients\<lparr>broadcast := replicate 100 ''x''\<rparr>" and data = "''{}''"]
  have m: "Inr (ev_Data issue_created) = (Inr ''{}'' :: unit + string)"
    by (simp add: issue_created_def)
  have room: "length (broadcast idle_clients) < broadcast_capacity"
    by (simp add: idle_clients_def broadcast_capacity_def)
  have empty: "broadcast idle_clients = []"
    by (simp add: idle_clients_def)
  have live: "live_open idle_clients"
    by (simp add: idle_clients_def live_open_def two_clients_def)
  have ord: "distinct [1, 2 :: chan]" "set [1, 2] = dom (clients idle_clients)"
    by (auto simp: idle_clients_def two_clients_def)
  have one: "1 \<in> dom (clients idle_clients)"
    "chans idle_clients 1 = Some \<lparr>buffer = [''old''], capacity = 10, closed = False\<rparr>"
    by (simp_all add: idle_clients_def two_clients_def)
  have 1: "Broadcast Inr issue_created idle_clients
             = Completes (idle_clients\<lparr>broadcast := [?msg]\<rparr>)"
    using ok m room empty by (simp add: issue_created_def)
  have 2: "Broadcast (\<lambda>d. Inl ()) issue_created idle_clients
             = Completes (idle_clients\<lparr>logged := [MarshalError ()]\<rparr>)"
    using bad by (simp add: idle_clients_def two_clients_def)
  have 3: "Broadcast Inr issue_created (idle_clients\<lparr>broadcast := replicate 100 ''x''\<rparr>) = Blocks"
    using full m by (simp add: broadcast_capacity_def)
  from ok m empty live ord
  obtain b' b'' where b: "Broadcast Inr issue_created idle_clients = Completes b'"
      "on_broadcast [1, 2] b' = Completes b''"
    and d: "\<forall>c ch. c \<in> dom (clients idle_clients) \<and> chans idle_clients c = Some ch
                \<and> length (buffer ch) < capacity ch
              \<longrightarrow> chans b'' c
                   = Some (ch\<lparr>buffer := buffer ch
                               @ [''event: '' @ ev_Type issue_created @ [newline]
                                  @ ''data: '' @ ''{}'' @ [newline, newline]]\<rparr>)"
    by blast
  have 4: "chans b'' 1 = Some \<lparr>buffer = [''old'', ?msg], capacity = 10, closed = False\<rparr>"
    using d [rule_format, of 1 "\<lparr>buffer = [''old''], capacity = 10, closed = False\<rparr>"] one
    by (simp add: issue_created_def)
  from 1 2 3 b 4 show ?thesis by blast
qed

section \<open>The graph endpoint\<close>

text \<open>
  Claim C10. When the initialization check lets the request through without having
  written a status and the adapter returned a graph: \<^verbatim>\<open>format=dot\<close> answers 200 with the
  DOT text as body and the two Graphviz headers; \<^verbatim>\<open>format=svg\<close> answers 501 with the JSON
  error body of code \<^verbatim>\<open>NOT_IMPLEMENTED\<close>; every other value of the parameter, the absent
  and the empty one included, answers 200 with the JSON of the graph.
\<close>

theorem C10_graph_formats:
  assumes "checkBeadsInitialized w = (True, w')" and "StatusCode w' = None"
    and "adapterGraph = Inr graph"
  shows "(Query_Get r ''format'' = ''dot''
            \<longrightarrow> handleGraph checkBeadsInitialized ops json_Priority adapterGraph w r
                  = w'\<lparr>Header := (Header w')(''Content-Type'' \<mapsto> ''text/vnd.graphviz; charset=utf-8'',
                                              ''Content-Disposition'' \<mapsto>
                                                ''inline; filename='' @ [dquote] @ ''dependencies.dot'' @ [dquote]),
                        StatusCode := Some 200,
                        Body := Body w' @ [Bytes (ToDOT graph)]\<rparr>)
         \<and> (Query_Get r ''format'' = ''svg''
            \<longrightarrow> handleGraph checkBeadsInitialized ops json_Priority adapterGraph w r
                  = w'\<lparr>Header := (Header w')(''Content-Type'' \<mapsto> ''application/json''),
                        StatusCode := Some 501,
                        Body := Body w' @ [JSONLine (JObject [(''error'', JString svg_message),
                                                              (''code'', JString ''NOT_IMPLEMENTED'')])]\<rparr>)
         \<and> (Query_Get r ''format'' \<noteq> ''dot'' \<and> Query_Get r ''format'' \<noteq> ''svg''
            \<longrightarrow> handleGraph checkBeadsInitialized ops json_Priority adapterGraph w r
                  = w'\<lparr>Header := (Header w')(''Content-Type'' \<mapsto> ''application/json''),
                        StatusCode := Some 200,
                        Body := Body w' @ [JSONLine (json_Graph json_Priority graph)]\<rparr>)"
  using assms
  by (simp add: handleGraph_def writeError_def writeJSON_def Write_def WriteHeader_def
        Header_Set_def json_ErrorResponse_def StatusOK_def StatusNotImplemented_def Let_def
        dquote_def)

theorem C10_graph_formats_witness:
  "initialized fresh_writer = (True, fresh_writer) \<and> StatusCode fresh_writer = None
   \<and> handleGraph initialized plain_errors JNumber (Inr NewGraph) fresh_writer (with_format ''dot'')
       = \<lparr>Header = [''Content-Type'' \<mapsto> ''text/vnd.graphviz; charset=utf-8'',
                     ''Content-Disposition'' \<mapsto>
                        ''inline; filename='' @ [dquote] @ ''dependencies.dot'' @ [dquote]],
          StatusCode = Some 200, Body = [Bytes (ToDOT (NewGraph :: int Graph))]\<rparr>
   \<and> handleGraph initialized plain_errors JNumber (Inr NewGraph) fresh_writer (with_format ''svg'')
       = \<lparr>Header = [''Content-Type'' \<mapsto> ''application/json''],
          StatusCode = Some 501,
          Body = [JSONLine (JObject [(''error'', JString svg_message),
                                     (''code'', JString ''NOT_IMPLEMENTED'')])]\<rparr>
   \<and> handleGraph initialized plain_errors JNumber (Inr NewGraph) fresh_writer without_format
       = \<lparr>Header = [''Content-Type'' \<mapsto> ''application/json''],
          StatusCode = Some 200, Body = [JSONLine (json_Graph JNumber NewGraph)]\<rparr>
   \<and> handleGraph initialized plain_errors JNumber (Inr NewGraph) fresh_writer (with_format '''')
       = \<lparr>Header = [''Content-Type'' \<mapsto> ''application/json''],
          StatusCode = Some 200, Body = [JSONLine (json_Graph JNumber NewGraph)]\<rparr>
   \<and> handleGraph initialized plain_errors JNumber (Inr NewGraph) fresh_writer (with_format ''DOT'')
       = \<lparr>Header = [''Content-Type'' \<mapsto> ''application/json''],
          StatusCode = Some 200, Body = [JSONLine (json_Graph JNumber NewGraph)]\<rparr>"
proof -
  have h1: "initialized fresh_writer = (True, fresh_writer)" by (simp add: initialized_def)
  have h2: "StatusCode fresh_writer = None" by (simp add: fresh_writer_def)
  have h3: "(Inr NewGraph :: unit + int Graph) = Inr NewGraph" by simp
  note at = C10_graph_formats
    [where checkBeadsInitialized = initialized and w = fresh_writer and w' = fresh_writer
       and adapterGraph = "Inr NewGraph :: unit + int Graph" and graph = NewGraph
       and ops = plain_errors and json_Priority = JNumber, OF h1 h2 h3]
  have q: "Query_Get (with_format v) ''format'' = v" for v
    by (simp add: Query_Get_def with_format_def)
  have q0: "Query_Get without_format ''format'' = []"
    by (simp add: Query_Get_def without_format_def)
  have dot: "handleGraph initialized plain_errors JNumber (Inr NewGraph) fresh_writer (with_format ''dot'')
       = \<lparr>Header = [''Content-Type'' \<mapsto> ''text/vnd.graphviz; charset=utf-8'',
                     ''Content-Disposition'' \<mapsto>
                        ''inline; filename='' @ [dquote] @ ''dependencies.dot'' @ [dquote]],
          StatusCode = Some 200, Body = [Bytes (ToDOT (NewGraph :: int Graph))]\<rparr>"
    using at [of "with_format ''dot''"] by (simp add: q fresh_writer_def)
  have svg: "handleGraph initialized plain_errors JNumber (Inr NewGraph) fresh_writer (with_format ''svg'')
       = \<lparr>Header = [''Content-Type'' \<mapsto> ''application/json''],
          StatusCode = Some 501,
          Body = [JSONLine (JObject [(''error'', JString svg_message),
                                     (''code'', JString ''NOT_IMPLEMENTED'')])]\<rparr>"
    using at [of "with_format ''svg''"] by (simp add: q fresh_writer_def)
  have none: "handleGraph initialized plain_errors JNumber (Inr NewGraph) fresh_writer without_format
       = \<lparr>Header = [''Content-Type'' \<mapsto> ''application/json''],
          StatusCode = Some 200, Body = [JSONLine (json_Graph JNumber (NewGraph :: int Graph))]\<rparr>"
    using at [of without_format] by (simp add: q0 fresh_writer_def)
  have empty: "handleGraph initialized plain_errors JNumber (Inr NewGraph) fresh_writer (with_format '''')
       = \<lparr>Header = [''Content-Type'' \<mapsto> ''application/json''],
          StatusCode = Some 200, Body = [JSONLine (json_Graph JNumber (NewGraph :: int Graph))]\<rparr>"
    using at [of "with_format ''''"] by (simp add: q fresh_writer_def)
  have upper: "handleGraph initialized plain_errors JNumber (Inr NewGraph) fresh_writer (with_format ''DOT'')
       = \<lparr>Header = [''Content-Type'' \<mapsto> ''application/json''],
          StatusCode = Some 200, Body = [JSONLine (json_Graph JNumber (NewGraph :: int Graph))]\<rparr>"
    using at [of "with_format ''DOT''"] by (simp add: q fresh_writer_def)
  from h1 h2 dot svg none empty upper show ?thesis by simp
qed

end
